theory Spec2Isabelle
  imports Complex_Main "HOL-Library.Log_Nat"
begin

section \<open>Python values\<close>

text \<open>
  The exceptions that the modelled code and the builtins it calls can raise. The last two
  come from reading a file: \<open>UnicodeDecodeError\<close> for bytes that are not text, and
  \<open>OSError\<close> for the failures of \<open>open\<close> other than a missing file (\<open>PermissionError\<close>,
  \<open>IsADirectoryError\<close>).
\<close>

datatype exn =
    TypeError | ValueError | OverflowError | AttributeError | KeyError
  | UnicodeDecodeError | OSError

text \<open>
  A Python \<open>float\<close> is an IEEE 754 binary64 value. Every finite binary64 value is a
  rational number, so a finite float is modelled by the rational it denotes; rounding happens
  where a float is produced (\<open>round_binary64\<close> below). The two zeros are identified:
  they compare equal, are both falsy and both round to \<open>0\<close>.
\<close>

datatype pyfloat = Finite rat | PosInf | NegInf | NaN

text \<open>
  The value type \<open>JSON\<close> of \<open>options.py\<close> and \<open>settings.py\<close>:
  \<open>Mapping[str, JSON] | Sequence[JSON] | str | int | float | bool | None\<close>.
  A mapping is the list of its items in insertion order. Strings are lists of code points
  below 256.
\<close>

datatype json =
    JNull
  | JBool bool
  | JInt int
  | JFloat pyfloat
  | JStr string
  | JList "json list"
  | JDict "(string \<times> json) list"

text \<open>The numbers a slider holds: \<open>float\<close> fields accept Python ints as well.\<close>

datatype pynum = PInt int | PFloat pyfloat

section \<open>Builtins\<close>

subsection \<open>Rounding\<close>

text \<open>Round to the nearest integer, ties to the even one (Python's \<open>round\<close>).\<close>

definition round_half_even :: "rat \<Rightarrow> int" where
  "round_half_even r =
     (let f = \<lfloor>r\<rfloor>; d = r - of_int f
      in if d < 1 / 2 then f
         else if 1 / 2 < d then f + 1
         else if even f then f else f + 1)"

definition pow2 :: "int \<Rightarrow> rat" where
  "pow2 k = (if 0 \<le> k then 2 ^ nat k else 1 / 2 ^ nat (- k))"

text \<open>The exponent \<open>e\<close> with \<open>2^e \<le> |r| < 2^(e+1)\<close>, for \<open>r \<noteq> 0\<close>.\<close>

definition binade :: "rat \<Rightarrow> int" where
  "binade r =
     (let (p, q) = quotient_of \<bar>r\<bar>; e0 = bitlen p - bitlen q
      in if \<bar>r\<bar> < pow2 e0 then e0 - 1 else e0)"

text \<open>
  Round a rational to binary64, nearest with ties to even: 53 significant bits, exponents down
  to \<open>-1022\<close> (below, the spacing stays \<open>2^-1074\<close>), and an infinity from \<open>2^1024\<close> on.
\<close>

definition round_binary64 :: "rat \<Rightarrow> pyfloat" where
  "round_binary64 r =
     (if r = 0 then Finite 0
      else let e = max (binade r) (- 1022);
               q = pow2 (e - 52);
               a = of_int (round_half_even (\<bar>r\<bar> / q)) * q
           in if pow2 1024 \<le> a then (if r < 0 then NegInf else PosInf)
              else Finite (if r < 0 then - a else a))"

subsection \<open>\<open>float()\<close>\<close>

text \<open>\<open>float(n)\<close> of an int: correctly rounded, OverflowError when out of range.\<close>

definition float_of_int :: "int \<Rightarrow> exn + pyfloat" where
  "float_of_int n =
     (case round_binary64 (of_int n) of
        Finite r \<Rightarrow> Inr (Finite r)
      | _ \<Rightarrow> Inl OverflowError)"

definition is_digit :: "char \<Rightarrow> bool" where
  "is_digit c = (48 \<le> (of_char c :: nat) \<and> (of_char c :: nat) \<le> 57)"

definition digit_val :: "char \<Rightarrow> int" where
  "digit_val c = of_char c - 48"

definition digits_val :: "string \<Rightarrow> int" where
  "digits_val ds = foldl (\<lambda>n c. 10 * n + digit_val c) 0 ds"

text \<open>ASCII lower case (\<open>Py_TOLOWER\<close>).\<close>

definition ascii_lower :: "char \<Rightarrow> char" where
  "ascii_lower c =
     (if 65 \<le> (of_char c :: nat) \<and> (of_char c :: nat) \<le> 90
      then char_of (of_char c + (32::nat)) else c)"

text \<open>
  \<open>float(s)\<close> of a string, step 1: a non-ASCII space becomes a blank. Of the code points
  below 256 these are \<open>0x85\<close> and \<open>0xA0\<close>.
\<close>

definition space_to_ascii :: "char \<Rightarrow> char" where
  "space_to_ascii c = (if c = CHR 0x85 \<or> c = CHR 0xA0 then CHR '' '' else c)"

text \<open>
  Step 2: an underscore is dropped when it stands between two digits, and is an error
  anywhere else. \<open>prev\<close> is the character before, if any.
\<close>

fun drop_underscores :: "char option \<Rightarrow> string \<Rightarrow> string option" where
  "drop_underscores prev [] = (if prev = Some CHR ''_'' then None else Some [])"
| "drop_underscores prev (c # cs) =
     (if c = CHR ''_'' then
        (case prev of
           None \<Rightarrow> None
         | Some p \<Rightarrow> if is_digit p then drop_underscores (Some c) cs else None)
      else if prev = Some CHR ''_'' \<and> \<not> is_digit c then None
      else map_option ((#) c) (drop_underscores (Some c) cs))"

text \<open>Step 3: blanks of the C locale are stripped at both ends (\<open>Py_ISSPACE\<close>).\<close>

definition c_isspace :: "char \<Rightarrow> bool" where
  "c_isspace c = (c \<in> set [CHR 0x09, CHR 0x0A, CHR 0x0B, CHR 0x0C, CHR 0x0D, CHR '' ''])"

definition c_strip :: "string \<Rightarrow> string" where
  "c_strip s = rev (dropWhile c_isspace (rev (dropWhile c_isspace s)))"

text \<open>Step 4: an optional sign, then \<open>inf\<close>, \<open>infinity\<close>, \<open>nan\<close> or a decimal literal.\<close>

definition split_sign :: "string \<Rightarrow> bool \<times> string" where
  "split_sign s =
     (case s of
        c # cs \<Rightarrow> if c = CHR ''-'' then (True, cs) else if c = CHR ''+'' then (False, cs)
                  else (False, s)
      | [] \<Rightarrow> (False, s))"

definition pow10 :: "int \<Rightarrow> rat" where
  "pow10 k = (if 0 \<le> k then 10 ^ nat k else 1 / 10 ^ nat (- k))"

definition parse_decimal :: "string \<Rightarrow> rat option" where
  "parse_decimal s =
     (let ip = takeWhile is_digit s; r1 = dropWhile is_digit s;
          has_point = (r1 \<noteq> [] \<and> hd r1 = CHR ''.'');
          fp = (if has_point then takeWhile is_digit (tl r1) else []);
          r2 = (if has_point then dropWhile is_digit (tl r1) else r1);
          m = digits_val (ip @ fp)
      in if ip = [] \<and> fp = [] then None
         else if r2 = [] then Some (of_int m * pow10 (- int (length fp)))
         else if hd r2 = CHR ''e'' \<or> hd r2 = CHR ''E'' then
           (let (eneg, r3) = split_sign (tl r2);
                ed = takeWhile is_digit r3; r4 = dropWhile is_digit r3;
                ex = digits_val ed
            in if ed = [] \<or> r4 \<noteq> [] then None
               else Some (of_int m * pow10 ((if eneg then - ex else ex) - int (length fp))))
         else None)"

definition float_of_string :: "string \<Rightarrow> pyfloat option" where
  "float_of_string s =
     (case drop_underscores None (map space_to_ascii s) of
        None \<Rightarrow> None
      | Some s1 \<Rightarrow>
          (let (neg, body) = split_sign (c_strip s1); word = map ascii_lower body
           in if word = ''inf'' \<or> word = ''infinity'' then Some (if neg then NegInf else PosInf)
              else if word = ''nan'' then Some NaN
              else (case parse_decimal body of
                      None \<Rightarrow> None
                    | Some r \<Rightarrow> Some (round_binary64 (if neg then - r else r)))))"

text \<open>\<open>float(value)\<close> of a JSON value.\<close>

fun py_float :: "json \<Rightarrow> exn + pyfloat" where
  "py_float JNull = Inl TypeError"
| "py_float (JBool b) = Inr (Finite (if b then 1 else 0))"
| "py_float (JInt n) = float_of_int n"
| "py_float (JFloat f) = Inr f"
| "py_float (JStr s) = (case float_of_string s of None \<Rightarrow> Inl ValueError | Some f \<Rightarrow> Inr f)"
| "py_float (JList xs) = Inl TypeError"
| "py_float (JDict kvs) = Inl TypeError"

subsection \<open>\<open>round()\<close>, \<open>int()\<close>, comparison and subtraction of numbers\<close>

text \<open>\<open>round(x)\<close> with one argument returns an int; an int is returned as it is.\<close>

fun py_round :: "pynum \<Rightarrow> exn + int" where
  "py_round (PInt n) = Inr n"
| "py_round (PFloat (Finite r)) = Inr (round_half_even r)"
| "py_round (PFloat NaN) = Inl ValueError"
| "py_round (PFloat PosInf) = Inl OverflowError"
| "py_round (PFloat NegInf) = Inl OverflowError"

text \<open>\<open>int(x)\<close> truncates towards zero.\<close>

fun py_int :: "pynum \<Rightarrow> exn + int" where
  "py_int (PInt n) = Inr n"
| "py_int (PFloat (Finite r)) = Inr (if 0 \<le> r then \<lfloor>r\<rfloor> else \<lceil>r\<rceil>)"
| "py_int (PFloat NaN) = Inl ValueError"
| "py_int (PFloat PosInf) = Inl OverflowError"
| "py_int (PFloat NegInf) = Inl OverflowError"

text \<open>
  The exact value of a number. Python compares an int with a float by value, without
  converting the int.
\<close>

fun num_val :: "pynum \<Rightarrow> pyfloat" where
  "num_val (PInt n) = Finite (of_int n)"
| "num_val (PFloat f) = f"

fun float_gt :: "pyfloat \<Rightarrow> pyfloat \<Rightarrow> bool" where
  "float_gt NaN y = False"
| "float_gt x NaN = False"
| "float_gt PosInf y = (y \<noteq> PosInf)"
| "float_gt NegInf y = False"
| "float_gt (Finite a) PosInf = False"
| "float_gt (Finite a) NegInf = True"
| "float_gt (Finite a) (Finite b) = (b < a)"

definition py_gt :: "pynum \<Rightarrow> pynum \<Rightarrow> bool" where
  "py_gt x y = float_gt (num_val x) (num_val y)"

definition py_eq :: "pynum \<Rightarrow> pynum \<Rightarrow> bool" where
  "py_eq x y = (num_val x \<noteq> NaN \<and> num_val x = num_val y)"

definition py_ne :: "pynum \<Rightarrow> pynum \<Rightarrow> bool" where
  "py_ne x y = (\<not> py_eq x y)"

fun float_sub :: "pyfloat \<Rightarrow> pyfloat \<Rightarrow> pyfloat" where
  "float_sub NaN y = NaN"
| "float_sub x NaN = NaN"
| "float_sub PosInf y = (if y = PosInf then NaN else PosInf)"
| "float_sub NegInf y = (if y = NegInf then NaN else NegInf)"
| "float_sub (Finite a) PosInf = NegInf"
| "float_sub (Finite a) NegInf = PosInf"
| "float_sub (Finite a) (Finite b) = round_binary64 (a - b)"

text \<open>The operand of a float operation: an int operand is converted first.\<close>

fun to_float :: "pynum \<Rightarrow> exn + pyfloat" where
  "to_float (PInt n) = float_of_int n"
| "to_float (PFloat f) = Inr f"

fun py_sub :: "pynum \<Rightarrow> pynum \<Rightarrow> exn + pynum" where
  "py_sub (PInt a) (PInt b) = Inr (PInt (a - b))"
| "py_sub x y =
     (case to_float x of
        Inl e \<Rightarrow> Inl e
      | Inr fx \<Rightarrow>
          (case to_float y of
             Inl e \<Rightarrow> Inl e
           | Inr fy \<Rightarrow> Inr (PFloat (float_sub fx fy))))"

subsection \<open>\<open>bool()\<close>, \<open>str()\<close>, string methods\<close>

fun py_bool :: "json \<Rightarrow> bool" where
  "py_bool JNull = False"
| "py_bool (JBool b) = b"
| "py_bool (JInt n) = (n \<noteq> 0)"
| "py_bool (JFloat f) = (f \<noteq> Finite 0)"
| "py_bool (JStr s) = (s \<noteq> [])"
| "py_bool (JList xs) = (xs \<noteq> [])"
| "py_bool (JDict kvs) = (kvs \<noteq> [])"

fun str_of_nat :: "nat \<Rightarrow> string" where
  "str_of_nat n =
     (if n < 10 then [''0123456789'' ! n]
      else str_of_nat (n div 10) @ [''0123456789'' ! (n mod 10)])"

definition str_of_int :: "int \<Rightarrow> string" where
  "str_of_int i = (if i < 0 then CHR ''-'' # str_of_nat (nat (- i)) else str_of_nat (nat i))"

text \<open>
  \<open>str(value)\<close>. For a float, a list and a mapping it is the value's \<open>repr\<close>, which is
  not modelled: it is the parameter \<open>R\<close>, and what is proved holds for every \<open>R\<close>.
\<close>

type_synonym repr = "json \<Rightarrow> string"

fun py_str :: "repr \<Rightarrow> json \<Rightarrow> string" where
  "py_str R JNull = ''None''"
| "py_str R (JBool b) = (if b then ''True'' else ''False'')"
| "py_str R (JInt n) = str_of_int n"
| "py_str R (JStr s) = s"
| "py_str R v = R v"

text \<open>\<open>str.strip()\<close> removes the characters with \<open>str.isspace()\<close> at both ends.\<close>

definition py_isspace :: "char \<Rightarrow> bool" where
  "py_isspace c =
     (let n = (of_char c :: nat)
      in (9 \<le> n \<and> n \<le> 13) \<or> (28 \<le> n \<and> n \<le> 32) \<or> n = 133 \<or> n = 160)"

definition py_strip :: "string \<Rightarrow> string" where
  "py_strip s = rev (dropWhile py_isspace (rev (dropWhile py_isspace s)))"

text \<open>\<open>str.lower()\<close> on code points below 256.\<close>

definition py_lower_char :: "char \<Rightarrow> char" where
  "py_lower_char c =
     (let n = (of_char c :: nat)
      in if (65 \<le> n \<and> n \<le> 90) \<or> (192 \<le> n \<and> n \<le> 222 \<and> n \<noteq> 215)
         then char_of (n + 32) else c)"

definition py_lower :: "string \<Rightarrow> string" where
  "py_lower s = map py_lower_char s"

subsection \<open>\<open>in\<close>, subscription and \<open>get\<close>\<close>

fun is_substring :: "string \<Rightarrow> string \<Rightarrow> bool" where
  "is_substring x [] = (x = [])"
| "is_substring x (c # cs) = (take (length x) (c # cs) = x \<or> is_substring x cs)"

text \<open>\<open>key in container\<close> for a string key.\<close>

fun py_contains :: "string \<Rightarrow> json \<Rightarrow> exn + bool" where
  "py_contains k (JDict kvs) = Inr (map_of kvs k \<noteq> None)"
| "py_contains k (JList xs) = Inr (JStr k \<in> set xs)"
| "py_contains k (JStr s) = Inr (is_substring k s)"
| "py_contains k v = Inl TypeError"

text \<open>\<open>container[key]\<close> for a string key.\<close>

fun py_getitem :: "json \<Rightarrow> string \<Rightarrow> exn + json" where
  "py_getitem (JDict kvs) k = (case map_of kvs k of None \<Rightarrow> Inl KeyError | Some v \<Rightarrow> Inr v)"
| "py_getitem v k = Inl TypeError"

text \<open>\<open>container.get(key, default)\<close>: only a mapping has the method.\<close>

fun py_get :: "json \<Rightarrow> string \<Rightarrow> json \<Rightarrow> exn + json" where
  "py_get (JDict kvs) k d = (case map_of kvs k of None \<Rightarrow> Inr d | Some v \<Rightarrow> Inr v)"
| "py_get v k d = Inl AttributeError"

text \<open>\<open>d[k] = v\<close>: a new key goes to the end, an old one keeps its place.\<close>

fun dict_setitem :: "string \<Rightarrow> 'a \<Rightarrow> (string \<times> 'a) list \<Rightarrow> (string \<times> 'a) list" where
  "dict_setitem k v [] = [(k, v)]"
| "dict_setitem k v (p # ps) = (if fst p = k then (k, v) # ps else p # dict_setitem k v ps)"

section \<open>Keybinds\<close>

text \<open>
  Modelled from the spec: \<open>KeybindType\<close> is declared in \<open>keybinds.py\<close>, which is not
  among the sources. These are the attributes that \<open>settings.py\<close> reads and writes: the
  identifier the keybinds section is keyed by, the current key or \<open>None\<close>, and whether
  the key may be rebound by the user and is therefore persisted.
\<close>

record keybind_type =
  "identifier" :: string
  key :: "string option"
  is_rebindable :: bool

section \<open>Options (\<open>options.py\<close>)\<close>

subsection \<open>\<open>BaseOption\<close> and \<open>ValueOption\<close>\<close>

text \<open>
  The fields of \<open>BaseOption\<close>. \<open>display_name\<close> and \<open>description_title\<close> default to
  Python's \<open>None\<close> and are filled in by \<open>__post_init__\<close>. The back-reference \<open>mod\<close>
  is not read by any modelled operation and is left out.
\<close>

record base_option =
  "identifier" :: string
  display_name :: "string option"
  description :: string
  description_title :: "string option"
  is_hidden :: bool

definition base_post_init :: "'z base_option_scheme \<Rightarrow> 'z base_option_scheme" where
  "base_post_init opt =
     (let opt1 = (if display_name opt = None
                  then opt\<lparr>display_name := Some (identifier opt)\<rparr> else opt)
      in if description_title opt1 = None
         then opt1\<lparr>description_title := display_name opt1\<rparr> else opt1)"

text \<open>
  A change callback is user code. It is called with the option and the new value; the model
  hands it the option's current value and the new value, and the callback answers with what it
  does: assignments to \<open>option.value\<close>, values handed to the world outside the option
  (the callback that \<open>KeybindOption.from_keybind\<close> installs writes the new key to the
  keybind), ended perhaps by an exception.
\<close>

datatype 'v stmt = SetValue 'v | Emit 'v | Raise exn

type_synonym 'v callback = "'v \<Rightarrow> 'v \<Rightarrow> 'v stmt list"

text \<open>
  The fields of \<open>ValueOption[J]\<close>. \<open>guard\<close> says whether the attribute
  \<open>_on_change_recursion_guard\<close> exists. \<open>emitted\<close> is not an attribute: it is the world
  outside the option, as far as the callback writes to it, namely the values that the
  \<open>Emit\<close> statements of the callback have handed out so far. Only a statement of the
  callback adds to it.
\<close>

record 'v value_option = base_option +
  "value" :: 'v
  default_value :: 'v
  on_change :: "'v callback option"
  guard :: bool
  emitted :: "'v list"

text \<open>
  \<open>ValueOption.__setattr__\<close> for the name \<open>value\<close>, and the run of a callback's
  statements, each assignment going through \<open>__setattr__\<close> again. The result is the
  option as the call leaves it and the exception that escapes, if any.
\<close>

function (domintros)
  setattr_value ::
    "('v, 'z) value_option_scheme \<Rightarrow> 'v \<Rightarrow> ('v, 'z) value_option_scheme \<times> exn option"
  and run_callback ::
    "('v, 'z) value_option_scheme \<Rightarrow> 'v stmt list
       \<Rightarrow> ('v, 'z) value_option_scheme \<times> exn option"
where
  "setattr_value opt v =
     (case on_change opt of
        Some cb \<Rightarrow>
          if \<not> guard opt then
            (case run_callback (opt\<lparr>guard := True\<rparr>) (cb (value opt) v) of
               (opt1, Some e) \<Rightarrow> (opt1, Some e)
             | (opt1, None) \<Rightarrow> (opt1\<lparr>guard := False, value := v\<rparr>, None))
          else (opt\<lparr>value := v\<rparr>, None)
      | None \<Rightarrow> (opt\<lparr>value := v\<rparr>, None))"
| "run_callback opt [] = (opt, None)"
| "run_callback opt (SetValue w # ss) =
     (case setattr_value opt w of
        (opt1, Some e) \<Rightarrow> (opt1, Some e)
      | (opt1, None) \<Rightarrow> run_callback opt1 ss)"
| "run_callback opt (Emit w # ss) = run_callback (opt\<lparr>emitted := emitted opt @ [w]\<rparr>) ss"
| "run_callback opt (Raise e # ss) = (opt, Some e)"
  by pat_completeness auto

text \<open>
  Both functions are total: an assignment made while the guard exists is a plain store, so the
  statements of a callback never start another callback.
\<close>

lemma setattr_guarded_dom: "guard opt \<Longrightarrow> setattr_value_run_callback_dom (Inl (opt, v))"
  by (rule setattr_value_run_callback.domintros) simp

lemma setattr_guarded_psimp:
  "guard opt \<Longrightarrow> setattr_value opt v = (opt\<lparr>value := v\<rparr>, None)"
  by (simp add: setattr_value.psimps setattr_guarded_dom split: option.split)

lemma run_guarded_dom: "guard opt \<Longrightarrow> setattr_value_run_callback_dom (Inr (opt, ss))"
proof (induction ss arbitrary: opt)
  case Nil
  show ?case by (rule setattr_value_run_callback.domintros)
next
  case (Cons s ss)
  show ?case
  proof (cases s)
    case (SetValue w)
    show ?thesis unfolding SetValue
      using Cons
      by (auto intro!: setattr_value_run_callback.domintros
               simp: setattr_guarded_psimp setattr_guarded_dom)
  next
    case (Emit w)
    show ?thesis unfolding Emit
      by (rule setattr_value_run_callback.domintros(4)) (simp add: Cons)
  next
    case (Raise e)
    show ?thesis unfolding Raise by (rule setattr_value_run_callback.domintros)
  qed
qed

lemma setattr_dom: "setattr_value_run_callback_dom (Inl (opt, v))"
  by (rule setattr_value_run_callback.domintros) (simp add: run_guarded_dom)

lemma run_dom: "setattr_value_run_callback_dom (Inr (opt, ss))"
proof (induction ss arbitrary: opt)
  case Nil
  show ?case by (rule setattr_value_run_callback.domintros)
next
  case (Cons s ss)
  show ?case
  proof (cases s)
    case (SetValue w)
    show ?thesis unfolding SetValue
      by (rule setattr_value_run_callback.domintros(3)) (simp_all add: setattr_dom Cons)
  next
    case (Emit w)
    show ?thesis unfolding Emit
      by (rule setattr_value_run_callback.domintros(4)) (simp add: Cons)
  next
    case (Raise e)
    show ?thesis unfolding Raise by (rule setattr_value_run_callback.domintros)
  qed
qed

termination setattr_value
  apply (rule allI)
  subgoal for x by (cases x) (auto simp: setattr_dom run_dom)
  done

text \<open>
  \<open>ValueOption.__post_init__\<close>. The assignment to \<open>default_value\<close> is a plain store.
  \<open>ValueOption._to_json\<close> returns \<open>self.value\<close>; \<open>to_json\<close> below says for each kind what
  JSON value that is.
\<close>

definition value_post_init :: "('v, 'z) value_option_scheme \<Rightarrow> ('v, 'z) value_option_scheme" where
  "value_post_init opt = (let opt1 = base_post_init opt in opt1\<lparr>default_value := value opt1\<rparr>)"

text \<open>
  The line written by \<open>logging.error\<close> when a value is refused: \<open>shown\<close> is the value as
  the f-string formats it.
\<close>

definition invalid_value_msg :: "string \<Rightarrow> string \<Rightarrow> string" where
  "invalid_value_msg shown ident =
     [CHR 0x27] @ shown @ [CHR 0x27] @ '' is not a valid value for option '' @ [CHR 0x27]
       @ ident @ [CHR 0x27] @ '', sticking with the default''"

text \<open>
  What a method leaves behind: the object as it is now, the lines it logged, and the
  exception that escapes, if any.
\<close>

type_synonym 'a run = "'a \<times> string list \<times> exn option"

subsection \<open>\<open>HiddenOption\<close>\<close>

type_synonym hidden_option = "json value_option"

definition hidden_from_json :: "hidden_option \<Rightarrow> json \<Rightarrow> hidden_option run" where
  "hidden_from_json opt v = (let (opt1, e) = setattr_value opt v in (opt1, [], e))"

subsection \<open>\<open>SliderOption\<close>\<close>

record slider_option = "pynum value_option" +
  min_value :: pynum
  max_value :: pynum
  step :: pynum
  is_integer :: bool

definition num_to_json :: "pynum \<Rightarrow> json" where
  "num_to_json x = (case x of PInt n \<Rightarrow> JInt n | PFloat f \<Rightarrow> JFloat f)"

text \<open>\<open>x != int(x)\<close>, and \<open>any\<close> over the generator, which stops at the first \<open>True\<close>.\<close>

definition not_integral :: "pynum \<Rightarrow> exn + bool" where
  "not_integral x = (case py_int x of Inl e \<Rightarrow> Inl e | Inr n \<Rightarrow> Inr (py_ne x (PInt n)))"

fun any_not_integral :: "pynum list \<Rightarrow> exn + bool" where
  "any_not_integral [] = Inr False"
| "any_not_integral (x # xs) =
     (case not_integral x of
        Inl e \<Rightarrow> Inl e
      | Inr True \<Rightarrow> Inr True
      | Inr False \<Rightarrow> any_not_integral xs)"

definition integer_warning :: string where
  "integer_warning =
     ''Spinner has non-integer fields despite is_integer being True. This may cause''
     @ '' unexpected rounding.''"

text \<open>
  \<open>SliderOption.__post_init__\<close>, the last step of constructing a slider: the exception
  raised, or the finished option with the warnings issued.
\<close>

definition slider_post_init :: "slider_option \<Rightarrow> exn + slider_option \<times> string list" where
  "slider_post_init opt0 =
     (let opt = value_post_init opt0
      in case py_sub (max_value opt) (min_value opt) of
           Inl e \<Rightarrow> Inl e
         | Inr width \<Rightarrow>
             if py_gt (step opt) width then Inl ValueError
             else if is_integer opt then
               (case any_not_integral [value opt, min_value opt, max_value opt, step opt] of
                  Inl e \<Rightarrow> Inl e
                | Inr True \<Rightarrow> Inr (opt, [integer_warning])
                | Inr False \<Rightarrow> Inr (opt, []))
             else Inr (opt, []))"

text \<open>
  \<open>SliderOption._from_json\<close>. The \<open>try\<close> block is \<open>slider_try\<close>; only a ValueError is
  caught.
\<close>

definition slider_try :: "slider_option \<Rightarrow> json \<Rightarrow> slider_option \<times> exn option" where
  "slider_try opt v =
     (case py_float v of
        Inl e \<Rightarrow> (opt, Some e)
      | Inr f \<Rightarrow>
          (case setattr_value opt (PFloat f) of
             (opt1, Some e) \<Rightarrow> (opt1, Some e)
           | (opt1, None) \<Rightarrow>
               if is_integer opt1 then
                 (case py_round (value opt1) of
                    Inl e \<Rightarrow> (opt1, Some e)
                  | Inr n \<Rightarrow> setattr_value opt1 (PInt n))
               else (opt1, None)))"

definition slider_from_json :: "repr \<Rightarrow> slider_option \<Rightarrow> json \<Rightarrow> slider_option run" where
  "slider_from_json R opt v =
     (case slider_try opt v of
        (opt1, Some e) \<Rightarrow>
          if e = ValueError then (opt1, [invalid_value_msg (py_str R v) (identifier opt1)], None)
          else (opt1, [], Some e)
      | (opt1, None) \<Rightarrow> (opt1, [], None))"

subsection \<open>\<open>SpinnerOption\<close>, \<open>BoolOption\<close>, \<open>DropdownOption\<close>\<close>

record spinner_option = "string value_option" +
  choices :: "string list"
  wrap_enabled :: bool

definition spinner_from_json :: "repr \<Rightarrow> spinner_option \<Rightarrow> json \<Rightarrow> spinner_option run" where
  "spinner_from_json R opt v =
     (let s = py_str R v
      in if s \<in> set (spinner_option.choices opt)
         then (let (opt1, e) = setattr_value opt s in (opt1, [], e))
         else (opt, [invalid_value_msg s (identifier opt)], None))"

record bool_option = "bool value_option" +
  true_text :: "string option"
  false_text :: "string option"

definition bool_from_json :: "bool_option \<Rightarrow> json \<Rightarrow> bool_option run" where
  "bool_from_json opt v =
     (let v1 = (case v of
                  JStr s \<Rightarrow> if py_lower (py_strip s) = ''false'' then JBool False else v
                | _ \<Rightarrow> v);
          (opt1, e) = setattr_value opt (py_bool v1)
      in (opt1, [], e))"

record dropdown_option = "string value_option" +
  choices :: "string list"

definition dropdown_from_json :: "repr \<Rightarrow> dropdown_option \<Rightarrow> json \<Rightarrow> dropdown_option run" where
  "dropdown_from_json R opt v =
     (let s = py_str R v
      in if s \<in> set (dropdown_option.choices opt)
         then (let (opt1, e) = setattr_value opt s in (opt1, [], e))
         else (opt, [invalid_value_msg s (identifier opt)], None))"

subsection \<open>\<open>ButtonOption\<close> and \<open>KeybindOption\<close>\<close>

text \<open>
  A button's press callback is user code that no modelled operation calls; the field says
  whether one is set.
\<close>

record button_option = base_option +
  on_press :: bool

record keybind_option = "string option value_option" +
  is_rebindable :: bool

definition key_to_json :: "string option \<Rightarrow> json" where
  "key_to_json k = (case k of None \<Rightarrow> JNull | Some s \<Rightarrow> JStr s)"

definition keybind_from_json :: "repr \<Rightarrow> keybind_option \<Rightarrow> json \<Rightarrow> keybind_option run" where
  "keybind_from_json R opt v =
     (let (opt1, e) = (if v = JNull then setattr_value opt None
                       else setattr_value opt (Some (py_str R v)))
      in (opt1, [], e))"

subsection \<open>The option tree: \<open>GroupedOption\<close> and \<open>NestedOption\<close>\<close>

text \<open>
  One constructor per concrete class. A group holds its own \<open>BaseOption\<close> fields and its
  children. An option object is taken to stand at one place of the tree only.
\<close>

datatype option_node =
    HiddenOption hidden_option
  | SliderOption slider_option
  | SpinnerOption spinner_option
  | BoolOption bool_option
  | DropdownOption dropdown_option
  | ButtonOption button_option
  | KeybindOption keybind_option
  | GroupedOption base_option "option_node list"
  | NestedOption base_option "option_node list"

fun ident :: "option_node \<Rightarrow> string" where
  "ident (HiddenOption opt) = identifier opt"
| "ident (SliderOption opt) = identifier opt"
| "ident (SpinnerOption opt) = identifier opt"
| "ident (BoolOption opt) = identifier opt"
| "ident (DropdownOption opt) = identifier opt"
| "ident (ButtonOption opt) = identifier opt"
| "ident (KeybindOption opt) = identifier opt"
| "ident (GroupedOption b cs) = identifier b"
| "ident (NestedOption b cs) = identifier b"

text \<open>
  \<open>_to_json\<close>: \<open>None\<close> stands for \<open>Ellipsis\<close>, "no value". The dict comprehension of
  a group is \<open>children_dict\<close>, which adds the children from left to right to the mapping
  built so far.
\<close>

fun to_json :: "option_node \<Rightarrow> json option"
  and children_dict :: "(string \<times> json) list \<Rightarrow> option_node list \<Rightarrow> (string \<times> json) list"
where
  "to_json (HiddenOption opt) = Some (value opt)"
| "to_json (SliderOption opt) = Some (num_to_json (value opt))"
| "to_json (SpinnerOption opt) = Some (JStr (value opt))"
| "to_json (BoolOption opt) = Some (JBool (value opt))"
| "to_json (DropdownOption opt) = Some (JStr (value opt))"
| "to_json (ButtonOption opt) = None"
| "to_json (KeybindOption opt) = Some (key_to_json (value opt))"
| "to_json (GroupedOption b cs) = Some (JDict (children_dict [] cs))"
| "to_json (NestedOption b cs) = Some (JDict (children_dict [] cs))"
| "children_dict acc [] = acc"
| "children_dict acc (c # cs) =
     children_dict
       (case to_json c of None \<Rightarrow> acc | Some j \<Rightarrow> dict_setitem (ident c) j acc) cs"

text \<open>
  \<open>_from_json\<close>. The loop of a group over its children is \<open>children_from_json\<close>; an
  exception from a child ends the loop and leaves the children after it as they were.
\<close>

definition lift_run :: "('a \<Rightarrow> option_node) \<Rightarrow> 'a run \<Rightarrow> option_node run" where
  "lift_run C r = (case r of (opt, logs, e) \<Rightarrow> (C opt, logs, e))"

fun from_json :: "repr \<Rightarrow> option_node \<Rightarrow> json \<Rightarrow> option_node run"
  and children_from_json ::
    "repr \<Rightarrow> option_node list \<Rightarrow> (string \<times> json) list \<Rightarrow> option_node list run"
where
  "from_json R (HiddenOption opt) v = lift_run HiddenOption (hidden_from_json opt v)"
| "from_json R (SliderOption opt) v = lift_run SliderOption (slider_from_json R opt v)"
| "from_json R (SpinnerOption opt) v = lift_run SpinnerOption (spinner_from_json R opt v)"
| "from_json R (BoolOption opt) v = lift_run BoolOption (bool_from_json opt v)"
| "from_json R (DropdownOption opt) v = lift_run DropdownOption (dropdown_from_json R opt v)"
| "from_json R (ButtonOption opt) v = (ButtonOption opt, [], None)"
| "from_json R (KeybindOption opt) v = lift_run KeybindOption (keybind_from_json R opt v)"
| "from_json R (GroupedOption b cs) v =
     (case v of
        JDict kvs \<Rightarrow> lift_run (GroupedOption b) (children_from_json R cs kvs)
      | _ \<Rightarrow> (GroupedOption b cs, [invalid_value_msg (py_str R v) (identifier b)], None))"
| "from_json R (NestedOption b cs) v =
     (case v of
        JDict kvs \<Rightarrow> lift_run (NestedOption b) (children_from_json R cs kvs)
      | _ \<Rightarrow> (NestedOption b cs, [invalid_value_msg (py_str R v) (identifier b)], None))"
| "children_from_json R [] kvs = ([], [], None)"
| "children_from_json R (c # cs) kvs =
     (case map_of kvs (ident c) of
        None \<Rightarrow>
          (case children_from_json R cs kvs of (cs1, logs, e) \<Rightarrow> (c # cs1, logs, e))
      | Some v \<Rightarrow>
          (case from_json R c v of
             (c1, logs1, Some e) \<Rightarrow> (c1 # cs, logs1, Some e)
           | (c1, logs1, None) \<Rightarrow>
               (case children_from_json R cs kvs of
                  (cs1, logs2, e) \<Rightarrow> (c1 # cs1, logs1 @ logs2, e))))"

section \<open>Settings (\<open>settings.py\<close>)\<close>

text \<open>
  Modelled from the spec: \<open>Mod\<close> is declared in \<open>mod.py\<close>, which is not among the
  sources. These are the attributes that \<open>settings.py\<close> reads: the option tree, the
  keybinds, the auto-enable flag, whether the mod is enabled now, and the settings file
  (\<open>None\<close> when the mod has none). The method \<open>enable\<close> is a parameter of the load.
\<close>

record mod_state =
  options :: "option_node list"
  keybinds :: "keybind_type list"
  auto_enable :: bool
  is_enabled :: bool
  settings_file :: "string option"

text \<open>
  The files, by what \<open>open\<close> and \<open>json.load\<close> do with them. A path has no file:
  \<open>open\<close> raises \<open>FileNotFoundError\<close>. \<open>Not_json\<close> is a file whose text is not JSON:
  \<open>json.load\<close> raises \<open>JSONDecodeError\<close>. \<open>Unreadable e\<close> is a file on which \<open>open\<close>
  or \<open>json.load\<close> raises another exception \<open>e\<close>, such as \<open>UnicodeDecodeError\<close> or
  \<open>OSError\<close>. \<open>Document j\<close> is a file that \<open>json.load\<close> reads as the value \<open>j\<close>.
\<close>

datatype file_content = Not_json | Unreadable exn | Document json

type_synonym files = "string \<rightharpoonup> file_content"

subsection \<open>Loading\<close>

text \<open>\<open>load_options_dict\<close>.\<close>

fun load_options_dict :: "repr \<Rightarrow> option_node list \<Rightarrow> json \<Rightarrow> option_node list run" where
  "load_options_dict R [] settings = ([], [], None)"
| "load_options_dict R (opt # opts) settings =
     (case py_contains (ident opt) settings of
        Inl e \<Rightarrow> (opt # opts, [], Some e)
      | Inr False \<Rightarrow>
          (case load_options_dict R opts settings of (opts1, logs, e) \<Rightarrow> (opt # opts1, logs, e))
      | Inr True \<Rightarrow>
          (case py_getitem settings (ident opt) of
             Inl e \<Rightarrow> (opt # opts, [], Some e)
           | Inr v \<Rightarrow>
               (case from_json R opt v of
                  (opt1, logs1, Some e) \<Rightarrow> (opt1 # opts, logs1, Some e)
                | (opt1, logs1, None) \<Rightarrow>
                    (case load_options_dict R opts settings of
                       (opts1, logs2, e) \<Rightarrow> (opt1 # opts1, logs1 @ logs2, e)))))"

text \<open>The loop of \<open>default_load_mod_settings\<close> over the keybinds (lines 63 to 69).\<close>

fun load_keybinds :: "repr \<Rightarrow> keybind_type list \<Rightarrow> json \<Rightarrow> keybind_type list \<times> exn option" where
  "load_keybinds R [] saved_keybinds = ([], None)"
| "load_keybinds R (keybind # rest) saved_keybinds =
     (case py_contains (keybind_type.identifier keybind) saved_keybinds of
        Inl e \<Rightarrow> (keybind # rest, Some e)
      | Inr False \<Rightarrow>
          (case load_keybinds R rest saved_keybinds of (rest1, e) \<Rightarrow> (keybind # rest1, e))
      | Inr True \<Rightarrow>
          (case py_getitem saved_keybinds (keybind_type.identifier keybind) of
             Inl e \<Rightarrow> (keybind # rest, Some e)
           | Inr k \<Rightarrow>
               (let keybind1 = (if k = JNull then keybind\<lparr>key := None\<rparr>
                                else keybind\<lparr>key := Some (py_str R k)\<rparr>)
                in case load_keybinds R rest saved_keybinds of
                     (rest1, e) \<Rightarrow> (keybind1 # rest1, e))))"

text \<open>Lines 58 and 59: the options section.\<close>

definition restore_options :: "repr \<Rightarrow> mod_state \<Rightarrow> json \<Rightarrow> mod_state run" where
  "restore_options R m settings =
     (case py_contains ''options'' settings of
        Inl e \<Rightarrow> (m, [], Some e)
      | Inr False \<Rightarrow> (m, [], None)
      | Inr True \<Rightarrow>
          (case py_getitem settings ''options'' of
             Inl e \<Rightarrow> (m, [], Some e)
           | Inr sec \<Rightarrow>
               (case load_options_dict R (options m) sec of
                  (opts1, logs, e) \<Rightarrow> (m\<lparr>options := opts1\<rparr>, logs, e))))"

text \<open>Lines 61 to 69: the keybinds section.\<close>

definition restore_keybinds :: "repr \<Rightarrow> mod_state \<Rightarrow> json \<Rightarrow> mod_state \<times> exn option" where
  "restore_keybinds R m settings =
     (case py_contains ''keybinds'' settings of
        Inl e \<Rightarrow> (m, Some e)
      | Inr False \<Rightarrow> (m, None)
      | Inr True \<Rightarrow>
          (case py_getitem settings ''keybinds'' of
             Inl e \<Rightarrow> (m, Some e)
           | Inr saved_keybinds \<Rightarrow>
               (case load_keybinds R (keybinds m) saved_keybinds of
                  (ks1, e) \<Rightarrow> (m\<lparr>keybinds := ks1\<rparr>, e))))"

text \<open>
  Line 71: \<open>self.auto_enable and settings.get("enabled", False)\<close>, taken as a condition.
  The \<open>get\<close> is only evaluated when the mod auto-enables.
\<close>

definition enable_wanted :: "mod_state \<Rightarrow> json \<Rightarrow> exn + bool" where
  "enable_wanted m settings =
     (if auto_enable m then
        (case py_get settings ''enabled'' (JBool False) of
           Inl e \<Rightarrow> Inl e
         | Inr v \<Rightarrow> Inr (py_bool v))
      else Inr False)"

text \<open>
  \<open>default_load_mod_settings\<close>. \<open>enable\<close> is the mod's method \<open>enable\<close>; \<open>fs\<close> are
  the files. The \<open>except\<close> clause names \<open>FileNotFoundError\<close> and \<open>JSONDecodeError\<close>:
  a missing file and a file that is not JSON end the load silently, any other exception from
  reading the file escapes.
\<close>

definition default_load_mod_settings ::
  "repr \<Rightarrow> (mod_state \<Rightarrow> mod_state run) \<Rightarrow> files \<Rightarrow> mod_state \<Rightarrow> mod_state run" where
  "default_load_mod_settings R enable fs m =
     (case settings_file m of
        None \<Rightarrow> (m, [], None)
      | Some path \<Rightarrow>
          (case fs path of
             None \<Rightarrow> (m, [], None)
           | Some Not_json \<Rightarrow> (m, [], None)
           | Some (Unreadable e) \<Rightarrow> (m, [], Some e)
           | Some (Document settings) \<Rightarrow>
               (case restore_options R m settings of
                  (m1, logs1, Some e) \<Rightarrow> (m1, logs1, Some e)
                | (m1, logs1, None) \<Rightarrow>
                    (case restore_keybinds R m1 settings of
                       (m2, Some e) \<Rightarrow> (m2, logs1, Some e)
                     | (m2, None) \<Rightarrow>
                         (case enable_wanted m2 settings of
                            Inl e \<Rightarrow> (m2, logs1, Some e)
                          | Inr False \<Rightarrow> (m2, logs1, None)
                          | Inr True \<Rightarrow>
                              (case enable m2 of
                                 (m3, logs3, e) \<Rightarrow> (m3, logs1 @ logs3, e)))))))"

subsection \<open>Saving\<close>

text \<open>\<open>create_options_dict\<close>: the same comprehension as a group's \<open>_to_json\<close>.\<close>

definition create_options_dict :: "option_node list \<Rightarrow> (string \<times> json) list" where
  "create_options_dict opts = children_dict [] opts"

text \<open>The loop of \<open>default_save_mod_settings\<close> over the keybinds (lines 105 to 108).\<close>

fun keybind_settings :: "(string \<times> json) list \<Rightarrow> keybind_type list \<Rightarrow> (string \<times> json) list" where
  "keybind_settings acc [] = acc"
| "keybind_settings acc (keybind # rest) =
     keybind_settings
       (if \<not> keybind_type.is_rebindable keybind then acc
        else dict_setitem (keybind_type.identifier keybind) (key_to_json (key keybind)) acc)
       rest"

text \<open>Lines 96 to 114: the document that is built.\<close>

definition build_settings :: "mod_state \<Rightarrow> (string \<times> json) list" where
  "build_settings m =
     (let s0 = [];
          s1 = (if 0 < length (options m) then
                  (let option_settings = create_options_dict (options m)
                   in if 0 < length option_settings
                      then dict_setitem ''options'' (JDict option_settings) s0 else s0)
                else s0);
          s2 = (if 0 < length (keybinds m) then
                  (let ks = keybind_settings [] (keybinds m)
                   in if 0 < length ks then dict_setitem ''keybinds'' (JDict ks) s1 else s1)
                else s1)
      in if auto_enable m then dict_setitem ''enabled'' (JBool (is_enabled m)) s2 else s2)"

text \<open>
  \<open>default_save_mod_settings\<close>: the files afterwards. \<open>unlink(missing_ok=True)\<close> leaves
  no file at the path, whether there was one or not.
\<close>

definition default_save_mod_settings :: "files \<Rightarrow> mod_state \<Rightarrow> files" where
  "default_save_mod_settings fs m =
     (case settings_file m of
        None \<Rightarrow> fs
      | Some path \<Rightarrow>
          (let settings = build_settings m
           in if length settings = 0 then fs(path := None)
              else fs(path \<mapsto> Document (JDict settings))))"

section \<open>Notions used to state the properties\<close>

text \<open>
  A change callback is well behaved when it never raises. An option without a callback is
  well behaved.
\<close>

definition never_raises :: "('v, 'z) value_option_scheme \<Rightarrow> bool" where
  "never_raises opt = (\<forall>cb old new e. on_change opt = Some cb \<longrightarrow> Raise e \<notin> set (cb old new))"

text \<open>
  A callback's statements read as straight-line code, with no callback behind an assignment:
  from the value the option holds, the value it holds at the end, the values handed out, and
  the exception that ends the run, if any. \<open>emits\<close> are the values a list of statements
  hands out when none of them raises.
\<close>

fun run_plain :: "'v \<Rightarrow> 'v stmt list \<Rightarrow> 'v \<times> 'v list \<times> exn option" where
  "run_plain x [] = (x, [], None)"
| "run_plain x (SetValue w # ss) = run_plain w ss"
| "run_plain x (Emit w # ss) = (case run_plain x ss of (y, es, e) \<Rightarrow> (y, w # es, e))"
| "run_plain x (Raise e # ss) = (x, [], Some e)"

fun emits :: "'v stmt list \<Rightarrow> 'v list" where
  "emits [] = []"
| "emits (Emit w # ss) = w # emits ss"
| "emits (s # ss) = emits ss"

text \<open>
  What has been handed out after an assignment of \<open>v\<close> whose callback does not raise:
  what the one call of the callback hands out is added when a callback is set and the guard
  does not exist, and nothing otherwise.
\<close>

definition emitted_after :: "('v, 'z) value_option_scheme \<Rightarrow> 'v \<Rightarrow> 'v list" where
  "emitted_after opt v =
     (case on_change opt of
        Some cb \<Rightarrow> if \<not> guard opt then emitted opt @ emits (cb (value opt) v) else emitted opt
      | None \<Rightarrow> emitted opt)"


text \<open>
  No callback in the tree ever raises, and there is no slider in the tree.
\<close>

fun callbacks_never_raise :: "option_node \<Rightarrow> bool"
  and callbacks_never_raise_list :: "option_node list \<Rightarrow> bool" where
  "callbacks_never_raise (GroupedOption b cs) = callbacks_never_raise_list cs"
| "callbacks_never_raise (NestedOption b cs) = callbacks_never_raise_list cs"
| "callbacks_never_raise (HiddenOption opt) = never_raises opt"
| "callbacks_never_raise (SliderOption opt) = never_raises opt"
| "callbacks_never_raise (SpinnerOption opt) = never_raises opt"
| "callbacks_never_raise (BoolOption opt) = never_raises opt"
| "callbacks_never_raise (DropdownOption opt) = never_raises opt"
| "callbacks_never_raise (ButtonOption opt) = True"
| "callbacks_never_raise (KeybindOption opt) = never_raises opt"
| "callbacks_never_raise_list [] = True"
| "callbacks_never_raise_list (c # cs) = (callbacks_never_raise c \<and> callbacks_never_raise_list cs)"

fun no_slider :: "option_node \<Rightarrow> bool" and no_sliders :: "option_node list \<Rightarrow> bool" where
  "no_slider (SliderOption opt) = False"
| "no_slider (GroupedOption b cs) = no_sliders cs"
| "no_slider (NestedOption b cs) = no_sliders cs"
| "no_slider (HiddenOption opt) = True"
| "no_slider (SpinnerOption opt) = True"
| "no_slider (BoolOption opt) = True"
| "no_slider (DropdownOption opt) = True"
| "no_slider (ButtonOption opt) = True"
| "no_slider (KeybindOption opt) = True"
| "no_sliders [] = True"
| "no_sliders (c # cs) = (no_slider c \<and> no_sliders cs)"

text \<open>
  An int that is a binary64 number: below \<open>2^1024\<close> in magnitude and with at most 53
  significant bits, that is, of at most 53 bits or else divisible by two to the power of
  its bit length minus 53. Every int of magnitude up to \<open>2^53\<close> is one
  (\<open>exact_int_small\<close> below), and \<open>float()\<close> of such an int is the int itself
  (\<open>float_of_int_exact\<close> below).
\<close>

definition exact_int :: "int \<Rightarrow> bool" where
  "exact_int n =
     (\<bar>n\<bar> < 2 ^ 1024 \<and> (bitlen \<bar>n\<bar> \<le> 53 \<or> 2 ^ nat (bitlen \<bar>n\<bar> - 53) dvd \<bar>n\<bar>))"



text \<open>
  Two options of the same kind hold equal values. For a slider this is Python's \<open>==\<close> on
  numbers, under which the int \<open>5\<close> and the float \<open>5.0\<close> are equal.
\<close>

fun same_value :: "option_node \<Rightarrow> option_node \<Rightarrow> bool" where
  "same_value (HiddenOption a) (HiddenOption b) = (value a = value b)"
| "same_value (SliderOption a) (SliderOption b) = py_eq (value a) (value b)"
| "same_value (SpinnerOption a) (SpinnerOption b) = (value a = value b)"
| "same_value (BoolOption a) (BoolOption b) = (value a = value b)"
| "same_value (DropdownOption a) (DropdownOption b) = (value a = value b)"
| "same_value (KeybindOption a) (KeybindOption b) = (value a = value b)"
| "same_value x y = False"

text \<open>
  An option is present in a mapping when its identifier is a key. \<open>absent_untouched\<close>
  compares the options before and after a load: there are as many, and each one that is not
  present is the same object in the same state.
\<close>

definition present :: "(string \<times> json) list \<Rightarrow> option_node \<Rightarrow> bool" where
  "present kvs node = (map_of kvs (ident node) \<noteq> None)"

definition absent_untouched ::
  "(string \<times> json) list \<Rightarrow> option_node list \<Rightarrow> option_node list \<Rightarrow> bool" where
  "absent_untouched kvs old new =
     (length new = length old
      \<and> (\<forall>i<length old. \<not> present kvs (old ! i) \<longrightarrow> new ! i = old ! i))"

text \<open>
  What decides the sections of a saved document: some option serializes to a value, some
  keybind is rebindable.
\<close>

definition has_option_values :: "mod_state \<Rightarrow> bool" where
  "has_option_values m = (\<exists>opt \<in> set (options m). to_json opt \<noteq> None)"

definition has_rebindable :: "mod_state \<Rightarrow> bool" where
  "has_rebindable m = (\<exists>k \<in> set (keybinds m). keybind_type.is_rebindable k)"

text \<open>What the keybinds section \<open>saved\<close> does to one keybind.\<close>

definition apply_saved_key :: "repr \<Rightarrow> (string \<times> json) list \<Rightarrow> keybind_type \<Rightarrow> keybind_type" where
  "apply_saved_key R saved keybind =
     (case map_of saved (keybind_type.identifier keybind) of
        None \<Rightarrow> keybind
      | Some k \<Rightarrow> keybind\<lparr>key := (if k = JNull then None else Some (py_str R k))\<rparr>)"


section \<open>Example objects\<close>

text \<open>
  A value option over the integers, holding 0, whose change callback validates: it raises a
  ValueError for a negative new value and hands every other new value on.
\<close>

definition validating_callback :: "int callback" where
  "validating_callback = (\<lambda>old new. if new < 0 then [Raise ValueError] else [Emit new])"

definition validated_option :: "int value_option" where
  "validated_option =
     \<lparr>identifier = ''level'', display_name = Some ''level'', description = [],
      description_title = Some ''level'', is_hidden = False, value = 0, default_value = 0,
      on_change = Some validating_callback, guard = False, emitted = []\<rparr>"

text \<open>
  The integer slider of the specification's examples: minimum 0, maximum 10, step 1, holding 5.
\<close>

definition example_slider :: slider_option where
  "example_slider =
     \<lparr>identifier = ''speed'', display_name = Some ''speed'', description = [],
      description_title = Some ''speed'', is_hidden = False,
      value = PInt 5, default_value = PInt 5, on_change = None, guard = False, emitted = [],
      min_value = PInt 0, max_value = PInt 10, step = PInt 1, is_integer = True\<rparr>"

text \<open>
  The same slider with a change callback that hands out the value the option holds at the
  moment the callback is called.
\<close>

definition watching_callback :: "pynum callback" where
  "watching_callback = (\<lambda>old new. [Emit old])"

definition watched_slider :: slider_option where
  "watched_slider = example_slider\<lparr>on_change := Some watching_callback\<rparr>"


definition nan_slider :: slider_option where
  "nan_slider =
     example_slider\<lparr>value := PFloat NaN, default_value := PFloat NaN, is_integer := False\<rparr>"

text \<open>A spinner and a dropdown with the choices a, b, c, holding b.\<close>

definition example_spinner :: spinner_option where
  "example_spinner =
     \<lparr>identifier = ''mode'', display_name = Some ''mode'', description = [],
      description_title = Some ''mode'', is_hidden = False,
      value = ''b'', default_value = ''b'', on_change = None, guard = False, emitted = [],
      spinner_option.choices = [''a'', ''b'', ''c''], wrap_enabled = False\<rparr>"

definition example_dropdown :: dropdown_option where
  "example_dropdown =
     \<lparr>identifier = ''colour'', display_name = Some ''colour'', description = [],
      description_title = Some ''colour'', is_hidden = False,
      value = ''b'', default_value = ''b'', on_change = None, guard = False, emitted = [],
      dropdown_option.choices = [''a'', ''b'', ''c'']\<rparr>"

text \<open>
  A stand-in for \<open>repr\<close> in the examples, none of which takes the \<open>str()\<close> of a float,
  a list or a mapping.
\<close>

definition sample_repr :: repr where
  "sample_repr = (\<lambda>v. ''?'')"

text \<open>
  A mod with the slider, the spinner and a rebindable keybind, which auto-enables and is not
  enabled yet; a mod with nothing to persist: a button, a keybind that cannot be rebound, no
  auto-enable; a persisted document; the files holding it; a persisted document whose
  keybinds section is \<open>null\<close>, and the files holding that; and a stand-in for
  \<open>Mod.enable\<close>, which marks the mod enabled and logs a line.
\<close>

definition example_keybind :: keybind_type where
  "example_keybind =
     \<lparr>keybind_type.identifier = ''jump'', key = Some ''J'', keybind_type.is_rebindable = True\<rparr>"

definition example_button :: button_option where
  "example_button =
     \<lparr>identifier = ''reset'', display_name = Some ''reset'', description = [],
      description_title = Some ''reset'', is_hidden = False, on_press = False\<rparr>"

definition example_mod :: mod_state where
  "example_mod =
     \<lparr>options = [SliderOption example_slider, SpinnerOption example_spinner],
      keybinds = [example_keybind], auto_enable = True, is_enabled = False,
      settings_file = Some ''demo.json''\<rparr>"

definition idle_mod :: mod_state where
  "idle_mod =
     \<lparr>options = [ButtonOption example_button],
      keybinds = [example_keybind\<lparr>keybind_type.is_rebindable := False\<rparr>],
      auto_enable = False, is_enabled = True, settings_file = Some ''demo.json''\<rparr>"

definition example_doc :: "(string \<times> json) list" where
  "example_doc =
     [(''options'', JDict [(''speed'', JInt 999)]),
      (''keybinds'', JDict [(''jump'', JStr ''K'')]),
      (''enabled'', JBool True)]"

definition example_files :: files where
  "example_files = [''demo.json'' \<mapsto> Document (JDict example_doc)]"

definition null_keybinds_doc :: "(string \<times> json) list" where
  "null_keybinds_doc = [(''keybinds'', JNull), (''enabled'', JBool True)]"

definition null_keybinds_files :: files where
  "null_keybinds_files = [''demo.json'' \<mapsto> Document (JDict null_keybinds_doc)]"

definition example_enable :: "mod_state \<Rightarrow> mod_state run" where
  "example_enable m = (m\<lparr>is_enabled := True\<rparr>, [''enable''], None)"

section \<open>The change callback of a value option\<close>

lemma setattr_value_guarded:
  "guard opt \<Longrightarrow> setattr_value opt v = (opt\<lparr>value := v\<rparr>, None)"
  by (simp split: option.split)

lemma setattr_value_no_callback:
  "on_change opt = None \<Longrightarrow> setattr_value opt v = (opt\<lparr>value := v\<rparr>, None)"
  by simp

text \<open>
  While the guard exists the statements of a callback run as straight-line code: an
  assignment among them is a plain store and starts no callback.
\<close>

lemma run_callback_plain:
  "guard opt \<Longrightarrow>
   run_callback opt ss =
     (case run_plain (value opt) ss of
        (y, es, e) \<Rightarrow> (opt\<lparr>value := y, emitted := emitted opt @ es\<rparr>, e))"
proof (induction ss arbitrary: opt)
  case Nil
  then show ?case by simp
next
  case (Cons s ss)
  show ?case
  proof (cases s)
    case (SetValue w)
    have g: "guard (opt\<lparr>value := w\<rparr>)" using Cons.prems by simp
    show ?thesis
      using Cons.prems SetValue Cons.IH [OF g]
      by (simp add: setattr_value_guarded del: setattr_value.simps split: prod.split)
  next
    case (Emit w)
    have g: "guard (opt\<lparr>emitted := emitted opt @ [w]\<rparr>)" using Cons.prems by simp
    show ?thesis
      using Emit Cons.IH [OF g] by (simp split: prod.split)
  next
    case (Raise x)
    then show ?thesis by simp
  qed
qed

text \<open>
  \<open>ValueOption.__setattr__\<close> in full, for an option with a callback and no guard attribute.
  The callback runs once, from the value the option holds before the assignment. If it
  returns, the new value is stored, over whatever the callback stored, and the guard is
  removed. If it raises, the exception escapes, the new value is not stored, and the guard
  stays.
\<close>

lemma setattr_value_callback:
  assumes "on_change opt = Some cb" and "\<not> guard opt"
  shows "setattr_value opt v =
           (case run_plain (value opt) (cb (value opt) v) of
              (y, es, None) \<Rightarrow> (opt\<lparr>value := v, emitted := emitted opt @ es\<rparr>, None)
            | (y, es, Some e) \<Rightarrow>
                (opt\<lparr>guard := True, value := y, emitted := emitted opt @ es\<rparr>, Some e))"
proof -
  have g: "guard (opt\<lparr>guard := True\<rparr>)" by simp
  obtain y es e where p: "run_plain (value opt) (cb (value opt) v) = (y, es, e)"
    by (cases "run_plain (value opt) (cb (value opt) v)")
  have r: "run_callback (opt\<lparr>guard := True\<rparr>) (cb (value opt) v) =
             (opt\<lparr>guard := True, value := y, emitted := emitted opt @ es\<rparr>, e)"
    using run_callback_plain [OF g, of "cb (value opt) v"] p by simp
  show ?thesis
    using assms p r by (cases e) (simp_all del: run_callback.simps)
qed

text \<open>
  With a well-behaved callback, or none, an assignment stores the value and returns; apart
  from the value only what has been handed out changes.
\<close>

lemma run_plain_quiet:
  "\<forall>e. Raise e \<notin> set ss \<Longrightarrow> \<exists>y. run_plain x ss = (y, emits ss, None)"
proof (induction ss arbitrary: x)
  case Nil
  then show ?case by simp
next
  case (Cons s ss)
  then have q: "\<forall>e. Raise e \<notin> set ss" by simp
  show ?case
  proof (cases s)
    case (SetValue w)
    then show ?thesis using Cons.IH [OF q, of w] by simp
  next
    case (Emit w)
    from Cons.IH [OF q, of x] obtain y where "run_plain x ss = (y, emits ss, None)" by blast
    then show ?thesis using Emit by simp
  next
    case (Raise e)
    with Cons.prems show ?thesis by auto
  qed
qed

lemma setattr_value_quiet:
  assumes "never_raises opt"
  shows "setattr_value opt v = (opt\<lparr>value := v, emitted := emitted_after opt v\<rparr>, None)"
proof (cases "on_change opt")
  case None
  then show ?thesis by (simp add: emitted_after_def)
next
  case (Some cb)
  show ?thesis
  proof (cases "guard opt")
    case True
    then show ?thesis using Some by (simp add: emitted_after_def)
  next
    case False
    have q: "\<forall>e. Raise e \<notin> set (cb (value opt) v)"
      using assms Some by (simp add: never_raises_def)
    from run_plain_quiet [OF q, of "value opt"] obtain y where
      "run_plain (value opt) (cb (value opt) v) = (y, emits (cb (value opt) v), None)" by blast
    then show ?thesis
      using setattr_value_callback [OF Some False, of v] Some False
      by (simp add: emitted_after_def del: setattr_value.simps)
  qed
qed

lemma never_raises_update [simp]:
  "never_raises (opt\<lparr>value := v, emitted := c\<rparr>) = never_raises opt"
  by (simp add: never_raises_def)

text \<open>
  What the example option does. An assignment of 5 calls the callback, which hands 5 on, and
  then stores 5. An assignment of \<open>-1\<close> calls the callback, which raises: the exception
  escapes, the option still holds 0, and the guard attribute is left behind, because the
  \<open>del\<close> that removes it is not in a \<open>finally\<close> clause.
\<close>

lemma validated_option_accepts:
  "setattr_value validated_option 5 = (validated_option\<lparr>value := 5, emitted := [5]\<rparr>, None)"
proof -
  have a: "on_change validated_option = Some validating_callback" "\<not> guard validated_option"
    "value validated_option = 0" "emitted validated_option = []"
    by (simp_all add: validated_option_def)
  show ?thesis
    using setattr_value_callback [OF a(1,2), of 5] a(3,4)
    by (simp add: validating_callback_def del: setattr_value.simps)
qed

lemma validated_option_refuses:
  "setattr_value validated_option (- 1) = (validated_option\<lparr>guard := True\<rparr>, Some ValueError)"
proof -
  have a: "on_change validated_option = Some validating_callback" "\<not> guard validated_option"
    "value validated_option = 0" "emitted validated_option = []"
    by (simp_all add: validated_option_def)
  show ?thesis
    using setattr_value_callback [OF a(1,2), of "- 1"] a(3,4)
    by (simp add: validating_callback_def validated_option_def del: setattr_value.simps)
qed

text \<open>
  C9. The claim is that every assignment to \<open>value\<close> of an option with a change callback
  invokes the callback before the new value is stored, assignments made by the callback itself
  apart. The code does so as long as no callback has raised (\<open>setattr_value_callback\<close>).
  After a callback has raised, the guard attribute exists for good, and from then on no
  assignment invokes the callback. The example option, whose callback refuses negative values,
  shows it. The assignment of \<open>-1\<close> is refused with a ValueError and leaves the guard behind.
  The assignment of 5 that follows is stored, yet the callback is not invoked: nothing is
  handed on, where the same assignment to the fresh option hands 5 on. The assignment of
  \<open>-2\<close> after that is stored as well, although the callback refuses it.
\<close>

theorem setattr_value_guard_left_behind:
  "on_change validated_option = Some validating_callback
   \<and> setattr_value validated_option 5 =
       (validated_option\<lparr>value := 5, emitted := [5]\<rparr>, None)
   \<and> setattr_value validated_option (- 1) =
       (validated_option\<lparr>guard := True\<rparr>, Some ValueError)
   \<and> setattr_value (validated_option\<lparr>guard := True\<rparr>) 5 =
       (validated_option\<lparr>guard := True, value := 5\<rparr>, None)
   \<and> emitted (validated_option\<lparr>guard := True, value := 5\<rparr>) = []
   \<and> setattr_value (validated_option\<lparr>guard := True, value := 5\<rparr>) (- 2) =
       (validated_option\<lparr>guard := True, value := - 2\<rparr>, None)
   \<and> validating_callback 5 (- 2) = [Raise ValueError]"
proof -
  have a: "on_change validated_option = Some validating_callback"
    by (simp add: validated_option_def)
  have b: "setattr_value (validated_option\<lparr>guard := True\<rparr>) 5 =
             (validated_option\<lparr>guard := True, value := 5\<rparr>, None)"
    by (simp add: setattr_value_guarded del: setattr_value.simps)
  have c: "setattr_value (validated_option\<lparr>guard := True, value := 5\<rparr>) (- 2) =
             (validated_option\<lparr>guard := True, value := - 2\<rparr>, None)"
    by (simp add: setattr_value_guarded del: setattr_value.simps)
  have d: "emitted (validated_option\<lparr>guard := True, value := 5\<rparr>) = []"
    by (simp add: validated_option_def)
  have e: "validating_callback 5 (- 2) = [Raise ValueError]"
    by (simp add: validating_callback_def)
  show ?thesis
    using a b c d e validated_option_accepts validated_option_refuses by blast
qed

section \<open>Facts about the builtins\<close>

lemma round_half_even_nearest: "\<bar>of_int (round_half_even r) - r\<bar> \<le> 1 / 2"
  unfolding round_half_even_def Let_def by (auto simp: abs_if) linarith+








text \<open>The int \<open>2^53 + 1\<close> is not a binary64 number: it has 54 significant bits.\<close>

lemma not_exact_int_big: "\<not> exact_int (2 ^ 53 + 1)"
  by code_simp

lemma float_7_6: "py_float (JStr ''7.6'') = Inr (Finite (4278419646001971 / 562949953421312))"
  by code_simp

lemma round_7_6: "round_half_even (4278419646001971 / 562949953421312) = 8"
  by code_simp

lemma float_999: "py_float (JInt 999) = Inr (Finite 999)"
  by code_simp

lemma round_999: "round_half_even 999 = 999"
  by code_simp


lemma float_neg_inf: "py_float (JStr ''-inf'') = Inr NegInf"
  by code_simp

lemma float_nan: "py_float (JStr ''nan'') = Inr NaN"
  by code_simp

lemma float_inf: "py_float (JStr ''inf'') = Inr PosInf"
  by code_simp

section \<open>Sliders\<close>

lemma never_raises_example_slider: "never_raises example_slider"
  by (simp add: never_raises_def example_slider_def)

lemma never_raises_watched_slider: "never_raises watched_slider"
  by (simp add: never_raises_def watched_slider_def watching_callback_def)

text \<open>
  The \<open>try\<close> block when \<open>float(value)\<close> gives the float \<open>f\<close> and no callback raises.
  An integer-flagged slider is assigned to twice: the float first, and then the int that
  \<open>round\<close> gives for the float the slider holds by then.
\<close>

lemma slider_try_steps:
  assumes "never_raises opt" and "py_float v = Inr f" and "is_integer opt \<longrightarrow> f = Finite r"
  shows "slider_try opt v =
           (if is_integer opt
            then setattr_value (fst (setattr_value opt (PFloat f))) (PInt (round_half_even r))
            else setattr_value opt (PFloat f))"
  using assms by (auto simp: slider_try_def setattr_value_quiet simp del: setattr_value.simps)

lemma slider_try_float:
  assumes "never_raises opt" and "py_float v = Inr f" and "is_integer opt \<longrightarrow> f = Finite r"
  shows "\<exists>c. slider_try opt v =
           (opt\<lparr>value := (if is_integer opt then PInt (round_half_even r) else PFloat f),
                emitted := c\<rparr>, None)"
  using assms by (auto simp: slider_try_def setattr_value_quiet simp del: setattr_value.simps)

lemma slider_from_json_float:
  assumes "never_raises opt" and "py_float v = Inr f" and "is_integer opt \<longrightarrow> f = Finite r"
  shows "snd (slider_from_json R opt v) = ([], None)
         \<and> value (fst (slider_from_json R opt v)) =
             (if is_integer opt then PInt (round_half_even r) else PFloat f)"
proof -
  from slider_try_float [OF assms] obtain c where
    "slider_try opt v =
       (opt\<lparr>value := (if is_integer opt then PInt (round_half_even r) else PFloat f),
            emitted := c\<rparr>, None)" by blast
  then show ?thesis by (simp add: slider_from_json_def)
qed

lemma slider_from_json_steps:
  assumes "never_raises opt" and "py_float v = Inr f" and "is_integer opt \<longrightarrow> f = Finite r"
  shows "fst (slider_from_json R opt v) =
           (if is_integer opt
            then fst (setattr_value (fst (setattr_value opt (PFloat f)))
                        (PInt (round_half_even r)))
            else fst (setattr_value opt (PFloat f)))"
proof -
  from slider_try_float [OF assms] obtain c where
    "slider_try opt v =
       (opt\<lparr>value := (if is_integer opt then PInt (round_half_even r) else PFloat f),
            emitted := c\<rparr>, None)" by blast
  then have "fst (slider_from_json R opt v) = fst (slider_try opt v)"
    by (simp add: slider_from_json_def)
  then show ?thesis using slider_try_steps [OF assms] by simp
qed

text \<open>
  C8. Constructing a slider whose step is greater than \<open>max_value - min_value\<close>, the
  difference being the one Python computes, raises a ValueError from \<open>__post_init__\<close>.
  In particular a step of 20 with minimum 0 and maximum 10 raises.
\<close>

theorem slider_post_init_step_too_large:
  assumes "py_sub (max_value opt) (min_value opt) = Inr width" and "py_gt (step opt) width"
  shows "slider_post_init opt = Inl ValueError
         \<and> slider_post_init (example_slider\<lparr>step := PInt 20\<rparr>) = Inl ValueError"
proof -
  have "slider_post_init (example_slider\<lparr>step := PInt 20\<rparr>) = Inl ValueError"
    by (simp add: slider_post_init_def value_post_init_def base_post_init_def Let_def
                  example_slider_def py_gt_def)
  then show ?thesis
    using assms
    by (simp add: slider_post_init_def value_post_init_def base_post_init_def Let_def)
qed

theorem slider_post_init_step_too_large_witness:
  "py_sub (max_value (example_slider\<lparr>step := PInt 20\<rparr>))
          (min_value (example_slider\<lparr>step := PInt 20\<rparr>)) = Inr (PInt 10)
   \<and> py_gt (step (example_slider\<lparr>step := PInt 20\<rparr>)) (PInt 10)
   \<and> slider_post_init (example_slider\<lparr>step := PInt 20\<rparr>) = Inl ValueError"
proof -
  have a: "py_sub (max_value (example_slider\<lparr>step := PInt 20\<rparr>))
          (min_value (example_slider\<lparr>step := PInt 20\<rparr>)) = Inr (PInt 10)"
    by (simp add: example_slider_def)
  have b: "py_gt (step (example_slider\<lparr>step := PInt 20\<rparr>)) (PInt 10)"
    by (simp add: example_slider_def py_gt_def)
  show ?thesis
    using slider_post_init_step_too_large [OF a b] a b by blast
qed

text \<open>
  The rounding is a second assignment. The callback of the watched slider hands out the value
  the slider holds each time it is called: loading \<open>"7.6"\<close> calls it twice, and at the
  second call the slider holds the float 7.6, not yet rounded. And not every value that
  \<open>float\<close> converts is accepted: \<open>"-inf"\<close> is stored in the integer-flagged example
  slider as the float it is, and the OverflowError of \<open>round\<close> escapes.
\<close>

theorem slider_from_json_rounds_counterexample:
  "is_integer watched_slider
   \<and> py_float (JStr ''7.6'') = Inr (Finite (4278419646001971 / 562949953421312))
   \<and> slider_from_json sample_repr watched_slider (JStr ''7.6'') =
       (watched_slider\<lparr>value := PInt 8,
          emitted := [PInt 5, PFloat (Finite (4278419646001971 / 562949953421312))]\<rparr>,
        [], None)
   \<and> is_integer example_slider
   \<and> py_float (JStr ''-inf'') = Inr NegInf
   \<and> slider_from_json sample_repr example_slider (JStr ''-inf'') =
       (example_slider\<lparr>value := PFloat NegInf\<rparr>, [], Some OverflowError)"
proof -
  have w: "on_change watched_slider = Some watching_callback" "\<not> guard watched_slider"
    "is_integer watched_slider" "value watched_slider = PInt 5" "emitted watched_slider = []"
    by (simp_all add: watched_slider_def example_slider_def)
  have h: "is_integer watched_slider \<longrightarrow>
        Finite (4278419646001971 / 562949953421312) = Finite (4278419646001971 / 562949953421312)"
    by simp
  have t: "slider_try watched_slider (JStr ''7.6'') =
             (watched_slider\<lparr>value := PInt 8,
                emitted := [PInt 5, PFloat (Finite (4278419646001971 / 562949953421312))]\<rparr>,
              None)"
    using slider_try_steps [OF never_raises_watched_slider float_7_6 h] w
    by (simp add: setattr_value_quiet never_raises_watched_slider emitted_after_def
                  watching_callback_def round_7_6 del: setattr_value.simps)
  have a: "slider_from_json sample_repr watched_slider (JStr ''7.6'') =
       (watched_slider\<lparr>value := PInt 8,
          emitted := [PInt 5, PFloat (Finite (4278419646001971 / 562949953421312))]\<rparr>,
        [], None)"
    using t by (simp add: slider_from_json_def)
  have n: "on_change example_slider = None" "is_integer example_slider"
    by (simp_all add: example_slider_def)
  have "slider_try example_slider (JStr ''-inf'') =
             (example_slider\<lparr>value := PFloat NegInf\<rparr>, Some OverflowError)"
    using n by (simp add: slider_try_def float_neg_inf del: py_float.simps)
  then have b: "slider_from_json sample_repr example_slider (JStr ''-inf'') =
       (example_slider\<lparr>value := PFloat NegInf\<rparr>, [], Some OverflowError)"
    by (simp add: slider_from_json_def)
  show ?thesis using a b w(3) n(2) float_7_6 float_neg_inf by blast
qed

text \<open>
  C3. When \<open>float(value)\<close> gives a float, finite if the slider is integer-flagged, and the
  callback, if any, is well behaved, a slider's \<open>_from_json\<close> accepts the value: nothing is
  logged and nothing is raised. It assigns the float to \<open>value\<close>, and the slider holds it.
  When the slider is integer-flagged it then assigns, in a second assignment, the integer that
  \<open>round\<close> gives for the float, which is a nearest integer (at most one half away). So the
  slider ends with that integer when it is integer-flagged, and with the float otherwise. In
  particular loading the string \<open>"7.6"\<close> into the example slider sets its value to 8.
\<close>

theorem slider_from_json_rounds:
  assumes "never_raises opt" and "py_float v = Inr f" and "is_integer opt \<longrightarrow> f = Finite r"
  shows "snd (slider_from_json R opt v) = ([], None)
         \<and> value (fst (setattr_value opt (PFloat f))) = PFloat f
         \<and> fst (slider_from_json R opt v) =
             (if is_integer opt
              then fst (setattr_value (fst (setattr_value opt (PFloat f)))
                          (PInt (round_half_even r)))
              else fst (setattr_value opt (PFloat f)))
         \<and> value (fst (slider_from_json R opt v)) =
             (if is_integer opt then PInt (round_half_even r) else PFloat f)
         \<and> \<bar>of_int (round_half_even r) - r\<bar> \<le> 1 / 2
         \<and> value (fst (slider_from_json R example_slider (JStr ''7.6''))) = PInt 8"
proof -
  have "is_integer example_slider \<longrightarrow>
        Finite (4278419646001971 / 562949953421312) = Finite (4278419646001971 / 562949953421312)"
    by simp
  from slider_from_json_float [OF never_raises_example_slider float_7_6 this, of R]
  have "value (fst (slider_from_json R example_slider (JStr ''7.6''))) = PInt 8"
    by (simp add: round_7_6 example_slider_def)
  moreover have "value (fst (setattr_value opt (PFloat f))) = PFloat f"
    using assms(1) by (simp add: setattr_value_quiet del: setattr_value.simps)
  ultimately show ?thesis
    using slider_from_json_float [OF assms, of R] slider_from_json_steps [OF assms, of R]
      round_half_even_nearest [of r]
    by (simp del: setattr_value.simps)
qed

theorem slider_from_json_rounds_witness:
  "never_raises example_slider
   \<and> py_float (JStr ''7.6'') = Inr (Finite (4278419646001971 / 562949953421312))
   \<and> is_integer example_slider
   \<and> snd (slider_from_json sample_repr example_slider (JStr ''7.6'')) = ([], None)
   \<and> value (fst (slider_from_json sample_repr example_slider (JStr ''7.6''))) = PInt 8"
proof -
  have h: "is_integer example_slider \<longrightarrow>
        Finite (4278419646001971 / 562949953421312) = Finite (4278419646001971 / 562949953421312)"
    by simp
  have i: "is_integer example_slider" by (simp add: example_slider_def)
  show ?thesis
    using slider_from_json_rounds [OF never_raises_example_slider float_7_6 h, of sample_repr]
      never_raises_example_slider float_7_6 i
    by blast
qed

text \<open>
  An infinity lies above every maximum. Loading \<open>Infinity\<close>, which \<open>json.load\<close>
  reads as the float infinity, into the integer-flagged example slider stores the infinity
  unrounded, and the OverflowError of \<open>round\<close> escapes.
\<close>

theorem slider_from_json_no_clamp_counterexample:
  "py_float (JFloat PosInf) = Inr PosInf
   \<and> float_gt PosInf (num_val (max_value example_slider))
   \<and> is_integer example_slider
   \<and> slider_from_json sample_repr example_slider (JFloat PosInf) =
       (example_slider\<lparr>value := PFloat PosInf\<rparr>, [], Some OverflowError)"
proof -
  have n: "on_change example_slider = None" "is_integer example_slider"
    "float_gt PosInf (num_val (max_value example_slider))"
    by (simp_all add: example_slider_def)
  have "slider_try example_slider (JFloat PosInf) =
             (example_slider\<lparr>value := PFloat PosInf\<rparr>, Some OverflowError)"
    using n by (simp add: slider_try_def)
  then have "slider_from_json sample_repr example_slider (JFloat PosInf) =
       (example_slider\<lparr>value := PFloat PosInf\<rparr>, [], Some OverflowError)"
    by (simp add: slider_from_json_def)
  then show ?thesis using n by simp
qed

text \<open>
  C10. A slider's \<open>_from_json\<close> does not clamp. When \<open>float(value)\<close> gives a float above
  \<open>max_value\<close> or below \<open>min_value\<close>, finite if the slider is integer-flagged, and the
  callback, if any, is well behaved, the float is stored as it is, or rounded when the slider
  is integer-flagged, and the range stays as it was. In particular loading 999 into the example
  slider, whose range is 0 to 10, sets its value to 999.
\<close>

theorem slider_from_json_no_clamp:
  assumes "never_raises opt" and "py_float v = Inr f" and "is_integer opt \<longrightarrow> f = Finite r"
    and "float_gt f (num_val (max_value opt)) \<or> float_gt (num_val (min_value opt)) f"
  shows "snd (slider_from_json R opt v) = ([], None)
         \<and> value (fst (slider_from_json R opt v)) =
             (if is_integer opt then PInt (round_half_even r) else PFloat f)
         \<and> min_value (fst (slider_from_json R opt v)) = min_value opt
         \<and> max_value (fst (slider_from_json R opt v)) = max_value opt
         \<and> value (fst (slider_from_json R example_slider (JInt 999))) = PInt 999"
proof -
  have "is_integer example_slider \<longrightarrow> Finite 999 = Finite 999" by simp
  from slider_from_json_float [OF never_raises_example_slider float_999 this, of R]
  have "value (fst (slider_from_json R example_slider (JInt 999))) = PInt 999"
    by (simp add: round_999 example_slider_def)
  moreover from slider_try_float [OF assms(1,2,3)] obtain c where
    "slider_try opt v =
       (opt\<lparr>value := (if is_integer opt then PInt (round_half_even r) else PFloat f),
            emitted := c\<rparr>, None)" by blast
  ultimately show ?thesis by (simp add: slider_from_json_def)
qed

theorem slider_from_json_no_clamp_witness:
  "never_raises example_slider \<and> py_float (JInt 999) = Inr (Finite 999)
   \<and> is_integer example_slider
   \<and> (float_gt (Finite 999) (num_val (max_value example_slider))
        \<or> float_gt (num_val (min_value example_slider)) (Finite 999))
   \<and> snd (slider_from_json sample_repr example_slider (JInt 999)) = ([], None)
   \<and> value (fst (slider_from_json sample_repr example_slider (JInt 999))) = PInt 999
   \<and> max_value (fst (slider_from_json sample_repr example_slider (JInt 999))) = PInt 10"
proof -
  have h: "float_gt (Finite 999) (num_val (max_value example_slider))
           \<or> float_gt (num_val (min_value example_slider)) (Finite 999)"
    by (simp add: example_slider_def)
  have i: "is_integer example_slider \<longrightarrow> Finite 999 = Finite 999" by simp
  have m: "max_value example_slider = PInt 10" by (simp add: example_slider_def)
  have j: "is_integer example_slider" by (simp add: example_slider_def)
  note t = slider_from_json_no_clamp [OF never_raises_example_slider float_999 i h,
      of sample_repr]
  from t m
  have "max_value (fst (slider_from_json sample_repr example_slider (JInt 999))) = PInt 10"
    by simp
  with t never_raises_example_slider float_999 j h show ?thesis by blast
qed

text \<open>
  Apart from sliders no option raises from \<open>_from_json\<close>, whatever value comes in, as
  long as no callback raises.
\<close>

lemma from_json_raises_only_in_sliders:
  "no_slider node \<Longrightarrow> callbacks_never_raise node \<Longrightarrow> snd (snd (from_json R node v)) = None"
  and "no_sliders cs \<Longrightarrow> callbacks_never_raise_list cs \<Longrightarrow>
        snd (snd (children_from_json R cs kvs)) = None"
proof (induction R node v and R cs kvs rule: from_json_children_from_json.induct)
  case (1 R opt v)
  then show ?case
    by (simp add: lift_run_def hidden_from_json_def setattr_value_quiet del: setattr_value.simps)
next
  case (2 R opt v)
  then show ?case by simp
next
  case (3 R opt v)
  then show ?case
    by (simp add: lift_run_def spinner_from_json_def Let_def setattr_value_quiet
             del: setattr_value.simps)
next
  case (4 R opt v)
  then show ?case
    by (simp add: lift_run_def bool_from_json_def Let_def setattr_value_quiet
             del: setattr_value.simps)
next
  case (5 R opt v)
  then show ?case
    by (simp add: lift_run_def dropdown_from_json_def Let_def setattr_value_quiet
             del: setattr_value.simps)
next
  case (6 R opt v)
  then show ?case by simp
next
  case (7 R opt v)
  then show ?case
    by (simp add: lift_run_def keybind_from_json_def setattr_value_quiet del: setattr_value.simps)
next
  case (8 R b cs v)
  then show ?case by (cases v) (auto simp: lift_run_def split: prod.splits)
next
  case (9 R b cs v)
  then show ?case by (cases v) (auto simp: lift_run_def split: prod.splits)
next
  case (10 R kvs)
  then show ?case by simp
next
  case (11 R c cs kvs)
  then show ?case by (auto split: option.splits prod.splits)
qed

text \<open>
  C1. The claim is that \<open>_from_json\<close> never raises and keeps the prior value when the
  incoming data is invalid. The slider's \<open>try\<close> block catches ValueError only. Loading
  \<open>None\<close> lets the TypeError of \<open>float(None)\<close> escape. Loading \<open>"inf"\<close> into an
  integer-flagged slider stores the infinity and then lets the OverflowError of \<open>round\<close>
  escape. Loading \<open>"nan"\<close> stores NaN before \<open>round\<close> raises the ValueError that is
  caught: the error is logged, yet the prior value 5 is gone. The other kinds do not raise
  (\<open>from_json_raises_only_in_sliders\<close>).
\<close>

theorem slider_from_json_escapes:
  "from_json R (SliderOption example_slider) JNull =
     (SliderOption example_slider, [], Some TypeError)
   \<and> from_json R (SliderOption example_slider) (JStr ''inf'') =
     (SliderOption (example_slider\<lparr>value := PFloat PosInf\<rparr>), [], Some OverflowError)
   \<and> from_json R (SliderOption example_slider) (JStr ''nan'') =
     (SliderOption (example_slider\<lparr>value := PFloat NaN\<rparr>),
      [invalid_value_msg ''nan'' ''speed''], None)"
proof -
  have n: "on_change example_slider = None" "is_integer example_slider"
    "identifier example_slider = ''speed''"
    by (simp_all add: example_slider_def)
  have a: "slider_try example_slider JNull = (example_slider, Some TypeError)"
    by (simp add: slider_try_def)
  have b: "slider_try example_slider (JStr ''inf'') =
             (example_slider\<lparr>value := PFloat PosInf\<rparr>, Some OverflowError)"
    using n by (simp add: slider_try_def float_inf del: py_float.simps)
  have c: "slider_try example_slider (JStr ''nan'') =
             (example_slider\<lparr>value := PFloat NaN\<rparr>, Some ValueError)"
    using n by (simp add: slider_try_def float_nan del: py_float.simps)
  show ?thesis using a b c n by (simp add: slider_from_json_def lift_run_def)
qed

section \<open>Spinners and dropdowns\<close>

lemma spinner_from_json_cases:
  "(py_str R v \<notin> set (spinner_option.choices opt) \<longrightarrow>
      spinner_from_json R opt v = (opt, [invalid_value_msg (py_str R v) (identifier opt)], None))
   \<and> (py_str R v \<in> set (spinner_option.choices opt) \<and> never_raises opt \<longrightarrow>
      spinner_from_json R opt v =
        (opt\<lparr>value := py_str R v, emitted := emitted_after opt (py_str R v)\<rparr>, [], None))"
  by (simp add: spinner_from_json_def Let_def setattr_value_quiet del: setattr_value.simps)

lemma dropdown_from_json_cases:
  "(py_str R v \<notin> set (dropdown_option.choices opt) \<longrightarrow>
      dropdown_from_json R opt v = (opt, [invalid_value_msg (py_str R v) (identifier opt)], None))
   \<and> (py_str R v \<in> set (dropdown_option.choices opt) \<and> never_raises opt \<longrightarrow>
      dropdown_from_json R opt v =
        (opt\<lparr>value := py_str R v, emitted := emitted_after opt (py_str R v)\<rparr>, [], None))"
  by (simp add: dropdown_from_json_def Let_def setattr_value_quiet del: setattr_value.simps)

text \<open>
  C4. A spinner and a dropdown compare \<open>str(value)\<close> with their choices by equality of
  strings. When it is none of the choices, the option is left exactly as it was and one error
  line is logged. When it is one of them (and the callback, if any, is well behaved), it
  becomes the value. In particular, with the choices a, b, c and the value b, loading
  \<open>"z"\<close> leaves the value b.
\<close>

theorem choice_from_json:
  "(py_str R v \<notin> set (spinner_option.choices sp) \<longrightarrow>
      spinner_from_json R sp v = (sp, [invalid_value_msg (py_str R v) (identifier sp)], None))
   \<and> (py_str R v \<in> set (spinner_option.choices sp) \<and> never_raises sp \<longrightarrow>
      value (fst (spinner_from_json R sp v)) = py_str R v
      \<and> snd (spinner_from_json R sp v) = ([], None))
   \<and> (py_str R v \<notin> set (dropdown_option.choices dd) \<longrightarrow>
      dropdown_from_json R dd v = (dd, [invalid_value_msg (py_str R v) (identifier dd)], None))
   \<and> (py_str R v \<in> set (dropdown_option.choices dd) \<and> never_raises dd \<longrightarrow>
      value (fst (dropdown_from_json R dd v)) = py_str R v
      \<and> snd (dropdown_from_json R dd v) = ([], None))
   \<and> value example_spinner = ''b''
   \<and> spinner_from_json R example_spinner (JStr ''z'') =
        (example_spinner, [invalid_value_msg ''z'' ''mode''], None)"
proof -
  have "value example_spinner = ''b''" by (simp add: example_spinner_def)
  moreover have "spinner_from_json R example_spinner (JStr ''z'') =
        (example_spinner, [invalid_value_msg ''z'' ''mode''], None)"
    using spinner_from_json_cases [of R "JStr ''z''" example_spinner]
    by (simp add: example_spinner_def)
  ultimately show ?thesis
    using spinner_from_json_cases [of R v sp] dropdown_from_json_cases [of R v dd] by simp
qed

theorem choice_from_json_witness:
  "py_str sample_repr (JStr ''B'') \<notin> set (spinner_option.choices example_spinner)
   \<and> spinner_from_json sample_repr example_spinner (JStr ''B'') =
        (example_spinner, [invalid_value_msg ''B'' ''mode''], None)
   \<and> py_str sample_repr (JStr ''c'') \<in> set (dropdown_option.choices example_dropdown)
   \<and> never_raises example_dropdown
   \<and> value (fst (dropdown_from_json sample_repr example_dropdown (JStr ''c''))) = ''c''"
  using choice_from_json [of sample_repr "JStr ''B''" example_spinner example_dropdown]
    choice_from_json [of sample_repr "JStr ''c''" example_spinner example_dropdown]
  by (simp add: example_spinner_def example_dropdown_def never_raises_def)

section \<open>Round trip\<close>



text \<open>
  A slider that holds NaN does not round-trip either: NaN comes back, and NaN is not equal to
  itself. This is why the valid domain of a slider leaves NaN out.
\<close>

lemma nan_slider_roundtrip:
  "from_json R (SliderOption nan_slider) (JFloat NaN) = (SliderOption nan_slider, [], None)
   \<and> \<not> same_value (SliderOption nan_slider) (SliderOption nan_slider)"
proof -
  have n: "on_change nan_slider = None" "\<not> is_integer nan_slider"
    "value nan_slider = PFloat NaN"
    by (simp_all add: nan_slider_def example_slider_def)
  have "slider_try nan_slider (JFloat NaN) = (nan_slider, None)"
    using n by (simp add: slider_try_def nan_slider_def)
  then show ?thesis using n by (simp add: slider_from_json_def lift_run_def py_eq_def)
qed



section \<open>Loading an options document\<close>

lemma absent_untouched_Cons:
  "absent_untouched kvs (c # cs) (c1 # cs1) =
     ((\<not> present kvs c \<longrightarrow> c1 = c) \<and> absent_untouched kvs cs cs1)"
  by (auto simp: absent_untouched_def nth_Cons split: nat.splits)

lemma absent_untouched_refl: "absent_untouched kvs cs cs"
  by (simp add: absent_untouched_def)

lemma children_from_json_untouched:
  "absent_untouched kvs cs (fst (children_from_json R cs kvs))"
proof (induction cs)
  case Nil
  show ?case by (simp add: absent_untouched_def)
next
  case (Cons c cs)
  obtain cs1 l e where r: "children_from_json R cs kvs = (cs1, l, e)"
    by (cases "children_from_json R cs kvs")
  with Cons have u: "absent_untouched kvs cs cs1" by simp
  show ?case
  proof (cases "map_of kvs (ident c)")
    case None
    then show ?thesis using r u by (simp add: absent_untouched_Cons)
  next
    case (Some v)
    obtain c1 l1 e1 where f: "from_json R c v = (c1, l1, e1)" by (cases "from_json R c v")
    show ?thesis using Some r u f
      by (cases e1) (simp_all add: absent_untouched_Cons absent_untouched_refl present_def)
  qed
qed

lemma children_from_json_filter:
  "snd (children_from_json R (filter (present kvs) cs) kvs) = snd (children_from_json R cs kvs)"
proof (induction cs)
  case Nil
  show ?case by simp
next
  case (Cons c cs)
  obtain cs1 l e where r: "children_from_json R cs kvs = (cs1, l, e)"
    by (cases "children_from_json R cs kvs")
  obtain cs2 l2 e2 where r2: "children_from_json R (filter (present kvs) cs) kvs = (cs2, l2, e2)"
    by (cases "children_from_json R (filter (present kvs) cs) kvs")
  from Cons r r2 have eq: "l2 = l" "e2 = e" by simp_all
  show ?case
  proof (cases "map_of kvs (ident c)")
    case None
    then have "\<not> present kvs c" by (simp add: present_def)
    then show ?thesis using None r r2 eq by simp
  next
    case (Some v)
    then have p: "present kvs c" by (simp add: present_def)
    obtain c1 l1 e1 where f: "from_json R c v = (c1, l1, e1)" by (cases "from_json R c v")
    show ?thesis using Some p r r2 eq f by (cases e1) simp_all
  qed
qed

lemma load_options_dict_JDict:
  "load_options_dict R opts (JDict kvs) = children_from_json R opts kvs"
  by (induction opts) (auto split: option.splits prod.splits)

lemma example_slider_load_999:
  "from_json R (SliderOption example_slider) (JInt 999) =
     (SliderOption (example_slider\<lparr>value := PInt 999\<rparr>), [], None)"
proof -
  have n: "on_change example_slider = None" "is_integer example_slider"
    by (simp_all add: example_slider_def)
  have "slider_try example_slider (JInt 999) = (example_slider\<lparr>value := PInt 999\<rparr>, None)"
    using n by (simp add: slider_try_def float_999 round_999 del: py_float.simps)
  then show ?thesis by (simp add: slider_from_json_def lift_run_def)
qed

lemma ident_examples:
  "identifier example_slider = ''speed''"
  "identifier example_spinner = ''mode''"
  by (simp_all add: example_slider_def example_spinner_def)

text \<open>
  C5. Loading a mapping, at the top level (\<open>load_options_dict\<close>) or into a group or a
  nested group, leaves every option whose identifier is not a key of the mapping exactly as it
  was: the same value, nothing reset. Such options are not dispatched to: what is logged and
  what is raised is the same as when only the present options are loaded, so an absent option
  causes no error.
\<close>

theorem absent_options_untouched:
  "absent_untouched kvs opts (fst (load_options_dict R opts (JDict kvs)))
   \<and> snd (load_options_dict R opts (JDict kvs)) =
       snd (load_options_dict R (filter (present kvs) opts) (JDict kvs))
   \<and> (\<exists>cs1. fst (from_json R (GroupedOption b cs) (JDict kvs)) = GroupedOption b cs1
             \<and> absent_untouched kvs cs cs1)
   \<and> snd (from_json R (GroupedOption b cs) (JDict kvs)) =
       snd (from_json R (GroupedOption b (filter (present kvs) cs)) (JDict kvs))
   \<and> (\<exists>cs1. fst (from_json R (NestedOption b cs) (JDict kvs)) = NestedOption b cs1
             \<and> absent_untouched kvs cs cs1)
   \<and> snd (from_json R (NestedOption b cs) (JDict kvs)) =
       snd (from_json R (NestedOption b (filter (present kvs) cs)) (JDict kvs))"
proof -
  obtain cs1 l e where r: "children_from_json R cs kvs = (cs1, l, e)"
    by (cases "children_from_json R cs kvs")
  obtain cs2 l2 e2 where r2: "children_from_json R (filter (present kvs) cs) kvs = (cs2, l2, e2)"
    by (cases "children_from_json R (filter (present kvs) cs) kvs")
  have u: "absent_untouched kvs cs cs1"
    using children_from_json_untouched [of kvs cs R] r by simp
  have eq: "l2 = l" "e2 = e"
    using children_from_json_filter [of R kvs cs] r r2 by simp_all
  show ?thesis
    using children_from_json_untouched [of kvs opts R] children_from_json_filter [of R kvs opts]
      r r2 u eq
    by (simp add: load_options_dict_JDict lift_run_def)
qed

theorem absent_options_untouched_witness:
  "\<not> present [(''speed'', JInt 999)] (SpinnerOption example_spinner)
   \<and> fst (load_options_dict sample_repr
             [SliderOption example_slider, SpinnerOption example_spinner]
             (JDict [(''speed'', JInt 999)])) ! 1 = SpinnerOption example_spinner"
proof -
  let ?kvs = "[(''speed'', JInt 999)]"
  let ?opts = "[SliderOption example_slider, SpinnerOption example_spinner]"
  have a: "\<not> present ?kvs (SpinnerOption example_spinner)"
    by (simp add: present_def ident_examples)
  have "absent_untouched ?kvs ?opts (fst (load_options_dict sample_repr ?opts (JDict ?kvs)))"
    using absent_options_untouched [of ?kvs ?opts sample_repr] by blast
  then have "\<not> present ?kvs (?opts ! 1) \<longrightarrow>
             fst (load_options_dict sample_repr ?opts (JDict ?kvs)) ! 1 = ?opts ! 1"
    unfolding absent_untouched_def by simp
  then show ?thesis using a by simp
qed

section \<open>Saving\<close>

lemma dict_setitem_not_Nil: "dict_setitem k v d \<noteq> []"
  by (cases d) auto

lemma children_dict_Nil:
  "(children_dict acc cs = []) = (acc = [] \<and> (\<forall>c \<in> set cs. to_json c = None))"
  by (induction cs arbitrary: acc) (auto simp: dict_setitem_not_Nil split: option.splits)

lemma keybind_settings_Nil:
  "(keybind_settings acc ks = []) = (acc = [] \<and> (\<forall>k \<in> set ks. \<not> keybind_type.is_rebindable k))"
  by (induction ks arbitrary: acc) (auto simp: dict_setitem_not_Nil)

lemma build_settings_sections:
  "build_settings m =
     (if has_option_values m then [(''options'', JDict (create_options_dict (options m)))] else [])
     @ (if has_rebindable m then [(''keybinds'', JDict (keybind_settings [] (keybinds m)))] else [])
     @ (if auto_enable m then [(''enabled'', JBool (is_enabled m))] else [])"
proof -
  have o: "(create_options_dict (options m) = []) = (\<not> has_option_values m)"
    by (simp add: create_options_dict_def children_dict_Nil has_option_values_def)
  have k: "(keybind_settings [] (keybinds m) = []) = (\<not> has_rebindable m)"
    by (simp add: keybind_settings_Nil has_rebindable_def)
  have o0: "options m = [] \<Longrightarrow> \<not> has_option_values m"
    by (simp add: has_option_values_def)
  have k0: "keybinds m = [] \<Longrightarrow> \<not> has_rebindable m"
    by (simp add: has_rebindable_def)
  show ?thesis
    using o k o0 k0 by (auto simp: build_settings_def Let_def)
qed

text \<open>
  C6. The document built by a save has at most the three sections options, keybinds and
  enabled, in this order: options exactly when some option serializes to a value, keybinds
  exactly when some keybind is rebindable, enabled exactly when the mod auto-enables. When
  none of the three is there, the settings file is removed, whether it existed or not, and
  no empty document is written; otherwise the file holds the document. A mod without a
  settings file saves nothing.
\<close>

theorem save_sections:
  "build_settings m =
     (if has_option_values m then [(''options'', JDict (create_options_dict (options m)))] else [])
     @ (if has_rebindable m then [(''keybinds'', JDict (keybind_settings [] (keybinds m)))] else [])
     @ (if auto_enable m then [(''enabled'', JBool (is_enabled m))] else [])
   \<and> (settings_file m = Some path \<longrightarrow>
        default_save_mod_settings fs m =
          (if \<not> has_option_values m \<and> \<not> has_rebindable m \<and> \<not> auto_enable m
           then fs(path := None)
           else fs(path \<mapsto> Document (JDict (build_settings m)))))
   \<and> (settings_file m = None \<longrightarrow> default_save_mod_settings fs m = fs)"
proof -
  have e: "(build_settings m = []) =
             (\<not> has_option_values m \<and> \<not> has_rebindable m \<and> \<not> auto_enable m)"
    by (simp add: build_settings_sections)
  show ?thesis
    using e build_settings_sections [of m] by (simp add: default_save_mod_settings_def Let_def)
qed

theorem save_sections_witness:
  "settings_file idle_mod = Some ''demo.json''
   \<and> \<not> has_option_values idle_mod \<and> \<not> has_rebindable idle_mod \<and> \<not> auto_enable idle_mod
   \<and> build_settings idle_mod = []
   \<and> default_save_mod_settings example_files idle_mod ''demo.json'' = None
   \<and> example_files ''demo.json'' = Some (Document (JDict example_doc))"
proof -
  have a: "settings_file idle_mod = Some ''demo.json''" by (simp add: idle_mod_def)
  have b: "\<not> has_option_values idle_mod" by (simp add: has_option_values_def idle_mod_def)
  have c: "\<not> has_rebindable idle_mod"
    by (simp add: has_rebindable_def idle_mod_def example_keybind_def)
  have d: "\<not> auto_enable idle_mod" by (simp add: idle_mod_def)
  have e: "example_files ''demo.json'' = Some (Document (JDict example_doc))"
    by (simp add: example_files_def)
  show ?thesis
    using save_sections [of idle_mod "''demo.json''" example_files] a b c d e by simp
qed

section \<open>Loading a mod's settings\<close>

lemma load_keybinds_JDict:
  "load_keybinds R ks (JDict saved) = (map (apply_saved_key R saved) ks, None)"
  by (induction ks) (auto simp: apply_saved_key_def split: option.splits)

lemma restore_options_frame:
  "restore_options R m settings = (m1, logs, e) \<Longrightarrow>
   keybinds m1 = keybinds m \<and> auto_enable m1 = auto_enable m \<and> is_enabled m1 = is_enabled m
   \<and> settings_file m1 = settings_file m"
  by (auto simp: restore_options_def split: sum.splits bool.splits prod.splits)

lemma restore_keybinds_frame:
  "restore_keybinds R m settings = (m1, e) \<Longrightarrow>
   options m1 = options m \<and> auto_enable m1 = auto_enable m \<and> is_enabled m1 = is_enabled m
   \<and> settings_file m1 = settings_file m"
  by (auto simp: restore_keybinds_def split: sum.splits bool.splits prod.splits)

lemma restore_options_JDict:
  "restore_options R m (JDict doc) = (m1, logs, e) \<Longrightarrow>
   options m1 = (case map_of doc ''options'' of
                   None \<Rightarrow> options m
                 | Some sec \<Rightarrow> fst (load_options_dict R (options m) sec))"
  by (auto simp: restore_options_def split: option.splits prod.splits)

lemma restore_keybinds_JDict:
  "restore_keybinds R m (JDict doc) = (m1, e) \<Longrightarrow>
   keybinds m1 = (case map_of doc ''keybinds'' of
                    None \<Rightarrow> keybinds m
                  | Some saved \<Rightarrow> fst (load_keybinds R (keybinds m) saved))"
  by (auto simp: restore_keybinds_def split: option.splits prod.splits)

lemma enable_wanted_JDict:
  "enable_wanted m (JDict doc) =
     Inr (auto_enable m
          \<and> py_bool (case map_of doc ''enabled'' of None \<Rightarrow> JBool False | Some v \<Rightarrow> v))"
  by (simp add: enable_wanted_def split: option.splits)

text \<open>
  An exception raised while the options or the keybinds are restored ends the load:
  \<open>enable\<close> is not reached. The slider of the example mod raises on \<open>None\<close>.
\<close>

lemma load_aborted:
  "settings_file m = Some path \<Longrightarrow> fs path = Some (Document settings) \<Longrightarrow>
   restore_options R m settings = (m1, logs1, Some e) \<Longrightarrow>
   default_load_mod_settings R enable fs m = (m1, logs1, Some e)"
  by (simp add: default_load_mod_settings_def)

lemma example_load_aborted:
  "default_load_mod_settings R enable
     [''demo.json'' \<mapsto> Document (JDict [(''options'', JDict [(''speed'', JNull)]),
                                         (''enabled'', JBool True)])]
     example_mod = (example_mod, [], Some TypeError)"
proof -
  have n: "identifier example_slider = ''speed''" by (simp add: example_slider_def)
  have s: "slider_try example_slider JNull = (example_slider, Some TypeError)"
    by (simp add: slider_try_def)
  have "restore_options R example_mod
          (JDict [(''options'', JDict [(''speed'', JNull)]), (''enabled'', JBool True)])
        = (example_mod, [], Some TypeError)"
    by (simp add: restore_options_def example_mod_def n s slider_from_json_def lift_run_def)
  then show ?thesis
    by (simp add: default_load_mod_settings_def example_mod_def)
qed

text \<open>
  The example mod auto-enables, and the document \<open>{"keybinds": null, "enabled": true}\<close>
  marks it enabled. The load raises a TypeError at \<open>keybind.identifier in saved_keybinds\<close>
  and \<open>enable\<close> is not invoked: the mod is returned as it was, not enabled, and the line that
  the stand-in for \<open>enable\<close> logs is not there.
\<close>

theorem load_enables_last_counterexample:
  "auto_enable example_mod
   \<and> settings_file example_mod = Some ''demo.json''
   \<and> null_keybinds_files ''demo.json'' = Some (Document (JDict null_keybinds_doc))
   \<and> py_get (JDict null_keybinds_doc) ''enabled'' (JBool False) = Inr (JBool True)
   \<and> py_bool (JBool True)
   \<and> example_enable example_mod = (example_mod\<lparr>is_enabled := True\<rparr>, [''enable''], None)
   \<and> default_load_mod_settings sample_repr example_enable null_keybinds_files example_mod =
       (example_mod, [], Some TypeError)
   \<and> \<not> is_enabled example_mod"
proof -
  have a: "auto_enable example_mod" "settings_file example_mod = Some ''demo.json''"
    "\<not> is_enabled example_mod"
    by (simp_all add: example_mod_def)
  have b: "null_keybinds_files ''demo.json'' = Some (Document (JDict null_keybinds_doc))"
    by (simp add: null_keybinds_files_def)
  have c: "py_get (JDict null_keybinds_doc) ''enabled'' (JBool False) = Inr (JBool True)"
    by (simp add: null_keybinds_doc_def)
  have d: "restore_options sample_repr example_mod (JDict null_keybinds_doc) =
             (example_mod, [], None)"
    by (simp add: restore_options_def null_keybinds_doc_def)
  have k: "keybinds example_mod = [example_keybind]" by (simp add: example_mod_def)
  have e: "restore_keybinds sample_repr example_mod (JDict null_keybinds_doc) =
             (example_mod, Some TypeError)"
    by (simp add: restore_keybinds_def null_keybinds_doc_def k)
  have f: "default_load_mod_settings sample_repr example_enable null_keybinds_files example_mod =
             (example_mod, [], Some TypeError)"
    by (simp add: default_load_mod_settings_def a(2) b d e)
  have g: "example_enable example_mod = (example_mod\<lparr>is_enabled := True\<rparr>, [''enable''], None)"
    by (simp add: example_enable_def)
  have h: "py_bool (JBool True)" by simp
  show ?thesis using a b c f g h by blast
qed

text \<open>
  C7. Every outcome of the default settings load. Without a settings file, with a missing file
  and with a file that is not JSON, the load changes nothing and \<open>enable\<close> is not invoked.
  Any other exception from reading the file escapes, and so does an exception raised while the
  options or the keybinds of the document are applied; the load ends there, whatever
  \<open>enable\<close> is. When the document is applied without an exception and is a mapping,
  \<open>enable\<close> is invoked exactly when the mod auto-enables and the document's \<open>enabled\<close>
  entry is truthy. It is invoked on the mod in which the options section and the keybinds
  section have been applied, and what it returns is what the load returns: it is the last
  step. When the document is applied without an exception and is not a mapping, \<open>enable\<close>
  is not invoked, and an auto-enabling mod raises an AttributeError.
\<close>

theorem load_enables_last:
  "(settings_file m = None \<longrightarrow> default_load_mod_settings R enable fs m = (m, [], None))
   \<and> (settings_file m = Some path \<and> (fs path = None \<or> fs path = Some Not_json) \<longrightarrow>
        default_load_mod_settings R enable fs m = (m, [], None))
   \<and> (settings_file m = Some path \<and> fs path = Some (Unreadable x) \<longrightarrow>
        default_load_mod_settings R enable fs m = (m, [], Some x))
   \<and> (settings_file m = Some path \<and> fs path = Some (Document settings)
        \<and> restore_options R m settings = (m1, logs1, Some x) \<longrightarrow>
        default_load_mod_settings R enable fs m = (m1, logs1, Some x))
   \<and> (settings_file m = Some path \<and> fs path = Some (Document settings)
        \<and> restore_options R m settings = (m1, logs1, None)
        \<and> restore_keybinds R m1 settings = (m2, Some x) \<longrightarrow>
        default_load_mod_settings R enable fs m = (m2, logs1, Some x))
   \<and> (settings_file m = Some path \<and> fs path = Some (Document settings)
        \<and> (\<forall>doc. settings \<noteq> JDict doc)
        \<and> restore_options R m settings = (m1, logs1, None)
        \<and> restore_keybinds R m1 settings = (m2, None) \<longrightarrow>
        default_load_mod_settings R enable fs m =
          (m2, logs1, if auto_enable m then Some AttributeError else None))
   \<and> (settings_file m = Some path \<and> fs path = Some (Document (JDict doc))
        \<and> restore_options R m (JDict doc) = (m1, logs1, None)
        \<and> restore_keybinds R m1 (JDict doc) = (m2, None) \<longrightarrow>
        default_load_mod_settings R enable fs m =
          (if auto_enable m
              \<and> py_bool (case map_of doc ''enabled'' of None \<Rightarrow> JBool False | Some v \<Rightarrow> v)
           then (case enable m2 of (m3, logs3, e) \<Rightarrow> (m3, logs1 @ logs3, e))
           else (m2, logs1, None))
        \<and> options m2 = (case map_of doc ''options'' of
                          None \<Rightarrow> options m
                        | Some sec \<Rightarrow> fst (load_options_dict R (options m) sec))
        \<and> keybinds m2 = (case map_of doc ''keybinds'' of
                           None \<Rightarrow> keybinds m
                         | Some saved \<Rightarrow> fst (load_keybinds R (keybinds m) saved))
        \<and> (\<forall>saved. map_of doc ''keybinds'' = Some (JDict saved) \<longrightarrow>
               keybinds m2 = map (apply_saved_key R saved) (keybinds m)))"
proof (intro conjI impI)
  assume "settings_file m = None"
  then show "default_load_mod_settings R enable fs m = (m, [], None)"
    by (simp add: default_load_mod_settings_def)
next
  assume "settings_file m = Some path \<and> (fs path = None \<or> fs path = Some Not_json)"
  then show "default_load_mod_settings R enable fs m = (m, [], None)"
    by (auto simp: default_load_mod_settings_def)
next
  assume "settings_file m = Some path \<and> fs path = Some (Unreadable x)"
  then show "default_load_mod_settings R enable fs m = (m, [], Some x)"
    by (simp add: default_load_mod_settings_def)
next
  assume "settings_file m = Some path \<and> fs path = Some (Document settings)
        \<and> restore_options R m settings = (m1, logs1, Some x)"
  then show "default_load_mod_settings R enable fs m = (m1, logs1, Some x)"
    by (simp add: default_load_mod_settings_def)
next
  assume "settings_file m = Some path \<and> fs path = Some (Document settings)
        \<and> restore_options R m settings = (m1, logs1, None)
        \<and> restore_keybinds R m1 settings = (m2, Some x)"
  then show "default_load_mod_settings R enable fs m = (m2, logs1, Some x)"
    by (simp add: default_load_mod_settings_def)
next
  assume a: "settings_file m = Some path \<and> fs path = Some (Document settings)
        \<and> (\<forall>doc. settings \<noteq> JDict doc)
        \<and> restore_options R m settings = (m1, logs1, None)
        \<and> restore_keybinds R m1 settings = (m2, None)"
  then have ro: "restore_options R m settings = (m1, logs1, None)"
    and rk: "restore_keybinds R m1 settings = (m2, None)" by simp_all
  have ae: "auto_enable m2 = auto_enable m"
    using restore_options_frame [OF ro] restore_keybinds_frame [OF rk] by simp
  have "py_get settings ''enabled'' (JBool False) = Inl AttributeError"
    using a by (cases settings) simp_all
  then have "enable_wanted m2 settings = (if auto_enable m then Inl AttributeError else Inr False)"
    using ae by (simp add: enable_wanted_def)
  then show "default_load_mod_settings R enable fs m =
          (m2, logs1, if auto_enable m then Some AttributeError else None)"
    using a by (simp add: default_load_mod_settings_def)
next
  assume a: "settings_file m = Some path \<and> fs path = Some (Document (JDict doc))
        \<and> restore_options R m (JDict doc) = (m1, logs1, None)
        \<and> restore_keybinds R m1 (JDict doc) = (m2, None)"
  then have ro: "restore_options R m (JDict doc) = (m1, logs1, None)"
    and rk: "restore_keybinds R m1 (JDict doc) = (m2, None)" by simp_all
  have ae: "auto_enable m2 = auto_enable m"
    using restore_options_frame [OF ro] restore_keybinds_frame [OF rk] by simp
  show "default_load_mod_settings R enable fs m =
          (if auto_enable m
              \<and> py_bool (case map_of doc ''enabled'' of None \<Rightarrow> JBool False | Some v \<Rightarrow> v)
           then (case enable m2 of (m3, logs3, e) \<Rightarrow> (m3, logs1 @ logs3, e))
           else (m2, logs1, None))"
    using a ae by (auto simp: default_load_mod_settings_def enable_wanted_JDict)
  show o: "options m2 = (case map_of doc ''options'' of
                          None \<Rightarrow> options m
                        | Some sec \<Rightarrow> fst (load_options_dict R (options m) sec))"
    using restore_options_JDict [OF ro] restore_keybinds_frame [OF rk]
    by (simp split: option.split)
  show k: "keybinds m2 = (case map_of doc ''keybinds'' of
                           None \<Rightarrow> keybinds m
                         | Some saved \<Rightarrow> fst (load_keybinds R (keybinds m) saved))"
    using restore_keybinds_JDict [OF rk] restore_options_frame [OF ro]
    by (simp split: option.split)
  show "\<forall>saved. map_of doc ''keybinds'' = Some (JDict saved) \<longrightarrow>
               keybinds m2 = map (apply_saved_key R saved) (keybinds m)"
    using k by (simp add: load_keybinds_JDict)
qed

theorem load_enables_last_witness:
  "settings_file example_mod = Some ''demo.json''
   \<and> example_files ''demo.json'' = Some (Document (JDict example_doc))
   \<and> restore_options sample_repr example_mod (JDict example_doc) =
        (example_mod\<lparr>options := [SliderOption (example_slider\<lparr>value := PInt 999\<rparr>),
                                  SpinnerOption example_spinner]\<rparr>, [], None)
   \<and> restore_keybinds sample_repr
        (example_mod\<lparr>options := [SliderOption (example_slider\<lparr>value := PInt 999\<rparr>),
                                  SpinnerOption example_spinner]\<rparr>) (JDict example_doc) =
        (example_mod\<lparr>options := [SliderOption (example_slider\<lparr>value := PInt 999\<rparr>),
                                  SpinnerOption example_spinner],
                      keybinds := [example_keybind\<lparr>key := Some ''K''\<rparr>]\<rparr>, None)
   \<and> auto_enable example_mod
   \<and> map_of example_doc ''enabled'' = Some (JBool True)
   \<and> default_load_mod_settings sample_repr example_enable example_files example_mod =
        (example_mod\<lparr>options := [SliderOption (example_slider\<lparr>value := PInt 999\<rparr>),
                                  SpinnerOption example_spinner],
                      keybinds := [example_keybind\<lparr>key := Some ''K''\<rparr>],
                      is_enabled := True\<rparr>, [''enable''], None)"
proof -
  let ?m1 = "example_mod\<lparr>options := [SliderOption (example_slider\<lparr>value := PInt 999\<rparr>),
                                  SpinnerOption example_spinner]\<rparr>"
  let ?m2 = "?m1\<lparr>keybinds := [example_keybind\<lparr>key := Some ''K''\<rparr>]\<rparr>"
  have a: "settings_file example_mod = Some ''demo.json''" by (simp add: example_mod_def)
  have b: "example_files ''demo.json'' = Some (Document (JDict example_doc))"
    by (simp add: example_files_def)
  have c: "restore_options sample_repr example_mod (JDict example_doc) = (?m1, [], None)"
    by (simp add: restore_options_def example_doc_def example_mod_def ident_examples
                  example_slider_load_999 del: from_json.simps)
  have d: "restore_keybinds sample_repr ?m1 (JDict example_doc) = (?m2, None)"
    by (simp add: restore_keybinds_def example_doc_def example_mod_def example_keybind_def)
  have e: "auto_enable example_mod" by (simp add: example_mod_def)
  have f: "map_of example_doc ''enabled'' = Some (JBool True)" by (simp add: example_doc_def)
  have "default_load_mod_settings sample_repr example_enable example_files example_mod =
          (?m2\<lparr>is_enabled := True\<rparr>, [''enable''], None)"
    using load_enables_last [of example_mod sample_repr example_enable example_files
                               "''demo.json''" _ _ ?m1 "[]" ?m2 example_doc] a b c d e f
    by (simp add: example_enable_def)
  then show ?thesis using a b c d e f by simp
qed

end
